theory Spec2Isabelle
  imports Complex_Main "HOL-Library.Sublist"
begin

section \<open>Virtual-Eye-Emulator: the tracker state and its operations\<close>

text \<open>
  The development embeds the class \<open>EyeTracker\<close> of \<open>Virtual_Eye_Emulator_2.py\<close>.
  Python floats are modelled as \<open>real\<close> (rounding of the binary representation is
  not part of the model), Python integers as \<open>int\<close>, counters that only ever hold
  \<open>0\<close> or are incremented as \<open>nat\<close>. Every method that mutates \<open>self\<close> takes the
  tracker record and returns the updated record; every call of \<open>time.time()\<close> is a
  parameter \<open>now\<close>.
\<close>

subsection \<open>Data\<close>

datatype py_error = ZeroDivisionError | IndexError

text \<open>The strings returned by \<open>detect_eye_state\<close>.\<close>

datatype eye_state_label =
  AMBOS_CERRADOS | GUINANDO_IZQUIERDO | GUINANDO_DERECHO | AMBOS_ABIERTOS | NORMAL

text \<open>The three values of \<open>visualization_mode\<close>.\<close>

datatype vis_mode = RECTANGULOS | REDONDEADOS | AM

text \<open>A MediaPipe landmark: normalised coordinates.\<close>

record landmark =
  lm_x :: real
  lm_y :: real

text \<open>\<open>frame.shape\<close>: rows (height) first, then columns (width).\<close>

type_synonym frame_shape = "int \<times> int"

text \<open>A raster frame; only its identity matters to the recorder.\<close>

type_synonym image = "nat list"

text \<open>One entry of \<open>animation_frames\<close> (the dictionary \<open>frame_data\<close>).\<close>

record frame_data =
  fd_timestamp :: real
  fd_mode :: vis_mode
  fd_left_ear :: real
  fd_right_ear :: real
  fd_gaze_x :: real
  fd_gaze_y :: real
  fd_left_brow :: real
  fd_right_brow :: real
  fd_direction :: string
  fd_am_phase :: "real option"

text \<open>One entry of \<open>video_frames\<close>: the copied frame and the elapsed time burnt in.\<close>

record video_frame =
  vf_image :: image
  vf_elapsed :: real

text \<open>What \<open>stop_recording\<close> hands to the JSON and MP4 writers.\<close>

record artifact =
  art_duration :: real
  art_total_frames :: nat
  art_fps :: real
  art_frames :: "frame_data list"
  art_video :: "video_frame list"

text \<open>
  The attributes of \<open>EyeTracker\<close> that the modelled methods read or write.
  \<open>recording_start_time\<close> is \<open>None\<close> before the first recording; it is read only
  while \<open>is_recording\<close> holds, after \<open>start_recording\<close> has set it, so the field is a
  plain number here. \<open>saved\<close> collects, oldest first, what \<open>stop_recording\<close> wrote, and
  \<open>stops\<close> counts the calls of \<open>stop_recording\<close> that found a recording active.
\<close>

record tracker =
  left_blink_counter :: nat
  right_blink_counter :: nat
  left_blink_total :: nat
  right_blink_total :: nat
  left_wink_counter :: nat
  right_wink_counter :: nat
  both_eyes_closed :: bool
  left_winking :: bool
  right_winking :: bool
  eye_movement_history :: "(real \<times> real) list"
  visualization_mode :: vis_mode
  is_recording :: bool
  animation_frames :: "frame_data list"
  video_frames :: "video_frame list"
  recording_start_time :: real
  last_frame_time :: real
  am_openness :: int
  am_open_dir :: int
  am_last_update :: real
  am_phase :: real
  saved :: "artifact list"
  stops :: nat

definition blink_threshold :: real where
  "blink_threshold = 20 / 100"

definition wink_threshold :: real where
  "wink_threshold = 18 / 100"

definition consecutive_frames :: nat where
  "consecutive_frames = 2"

definition history_size :: nat where
  "history_size = 3"

definition max_recording_time :: real where
  "max_recording_time = 60"

definition frame_interval :: real where
  "frame_interval = 1 / 30"

definition AM_FRAME_INTERVAL :: real where
  "AM_FRAME_INTERVAL = 4 / 100"

text \<open>\<open>EyeTracker.__init__\<close>, created at time \<open>t0\<close>.\<close>

definition init_tracker :: "real \<Rightarrow> tracker" where
  "init_tracker t0 =
     \<lparr> left_blink_counter = 0, right_blink_counter = 0,
       left_blink_total = 0, right_blink_total = 0,
       left_wink_counter = 0, right_wink_counter = 0,
       both_eyes_closed = False, left_winking = False, right_winking = False,
       eye_movement_history = [], visualization_mode = RECTANGULOS,
       is_recording = False, animation_frames = [], video_frames = [],
       recording_start_time = 0, last_frame_time = 0,
       am_openness = 0, am_open_dir = 1, am_last_update = t0, am_phase = 0,
       saved = [], stops = 0 \<rparr>"

text \<open>Python's \<open>int(x)\<close> on a float: truncation towards zero.\<close>

definition py_int :: "real \<Rightarrow> int" where
  "py_int r = (if 0 \<le> r then \<lfloor>r\<rfloor> else \<lceil>r\<rceil>)"

subsection \<open>\<open>detect_eye_state\<close>\<close>

text \<open>
  The method is an \<open>if/elif/else\<close> chain followed by two more \<open>if\<close> statements; the
  branches that \<open>return\<close> leave the later statements unexecuted.
\<close>

definition detect_eye_state :: "tracker \<Rightarrow> real \<Rightarrow> real \<Rightarrow> eye_state_label \<times> tracker" where
  "detect_eye_state s left_ear right_ear =
     (let left_closed = left_ear < wink_threshold;
          right_closed = right_ear < wink_threshold
      in
      if left_closed \<and> right_closed then
        (AMBOS_CERRADOS,
         s\<lparr>both_eyes_closed := True, left_winking := False, right_winking := False\<rparr>)
      else
        let s1 = (if left_closed \<and> \<not> right_closed
                  then s\<lparr>left_wink_counter := left_wink_counter s + 1\<rparr>
                  else s\<lparr>left_wink_counter := 0\<rparr>)
        in
        if left_closed \<and> \<not> right_closed \<and> consecutive_frames \<le> left_wink_counter s1 then
          (GUINANDO_IZQUIERDO,
           s1\<lparr>left_winking := True, right_winking := False, both_eyes_closed := False\<rparr>)
        else
          let s2 = (if right_closed \<and> \<not> left_closed
                    then s1\<lparr>right_wink_counter := right_wink_counter s1 + 1\<rparr>
                    else s1\<lparr>right_wink_counter := 0\<rparr>)
          in
          if right_closed \<and> \<not> left_closed \<and> consecutive_frames \<le> right_wink_counter s2 then
            (GUINANDO_DERECHO,
             s2\<lparr>right_winking := True, left_winking := False, both_eyes_closed := False\<rparr>)
          else if \<not> left_closed \<and> \<not> right_closed then
            (AMBOS_ABIERTOS,
             s2\<lparr>left_winking := False, right_winking := False, both_eyes_closed := False\<rparr>)
          else (NORMAL, s2))"

text \<open>Consecutive evaluations of the classifier; the labels are returned oldest first.\<close>

fun detect_eye_states :: "tracker \<Rightarrow> (real \<times> real) list \<Rightarrow> eye_state_label list \<times> tracker" where
  "detect_eye_states s [] = ([], s)"
| "detect_eye_states s (e # es) =
     (case detect_eye_state s (fst e) (snd e) of
        (l, s') \<Rightarrow> (case detect_eye_states s' es of (ls, s'') \<Rightarrow> (l # ls, s'')))"

subsection \<open>Blink counting in \<open>process_frame\<close>\<close>

text \<open>
  The block of \<open>process_frame\<close> that runs when a face was detected, after the two EAR
  values have been computed: the classifier is called (its label is not used), then each
  eye's blink counter is advanced or, on an open frame, closed off and reset. A frame
  without a detected face skips the block and leaves every counter as it is.
\<close>

definition process_frame_eyes :: "tracker \<Rightarrow> real \<Rightarrow> real \<Rightarrow> tracker" where
  "process_frame_eyes s left_ear right_ear =
     (let s1 = snd (detect_eye_state s left_ear right_ear);
          s2 = (if left_ear < blink_threshold
                then s1\<lparr>left_blink_counter := left_blink_counter s1 + 1\<rparr>
                else (if consecutive_frames \<le> left_blink_counter s1
                      then s1\<lparr>left_blink_total := left_blink_total s1 + 1\<rparr>
                      else s1)\<lparr>left_blink_counter := 0\<rparr>)
      in
      if right_ear < blink_threshold
      then s2\<lparr>right_blink_counter := right_blink_counter s2 + 1\<rparr>
      else (if consecutive_frames \<le> right_blink_counter s2
            then s2\<lparr>right_blink_total := right_blink_total s2 + 1\<rparr>
            else s2)\<lparr>right_blink_counter := 0\<rparr>)"

text \<open>The block run on the EAR pairs of consecutive frames with a detected face.\<close>

fun process_frames_eyes :: "tracker \<Rightarrow> (real \<times> real) list \<Rightarrow> tracker" where
  "process_frames_eyes s [] = s"
| "process_frames_eyes s (e # es) =
     process_frames_eyes (process_frame_eyes s (fst e) (snd e)) es"

subsection \<open>Landmark geometry\<close>

text \<open>The pixel of a landmark: \<open>(int(landmark.x * shape[1]), int(landmark.y * shape[0]))\<close>.\<close>

definition to_pixel :: "frame_shape \<Rightarrow> landmark \<Rightarrow> int \<times> int" where
  "to_pixel shape l =
     (py_int (lm_x l * of_int (snd shape)), py_int (lm_y l * of_int (fst shape)))"

text \<open>\<open>scipy.spatial.distance.euclidean\<close> on two pixel pairs.\<close>

definition euclidean :: "int \<times> int \<Rightarrow> int \<times> int \<Rightarrow> real" where
  "euclidean p q = sqrt (of_int ((fst p - fst q)\<^sup>2 + (snd p - snd q)\<^sup>2))"

text \<open>
  \<open>calculate_eye_aspect_ratio\<close>. Reading \<open>points[5]\<close> of a shorter list raises
  \<open>IndexError\<close>. The quotient is formed with no test of the denominator: when \<open>C\<close> is
  zero the division does not produce a number (\<open>ZeroDivisionError\<close> on Python floats,
  \<open>inf\<close> or \<open>nan\<close> with a warning on numpy floats), which is the error branch here.
\<close>

definition calculate_eye_aspect_ratio :: "landmark list \<Rightarrow> frame_shape \<Rightarrow> py_error + real" where
  "calculate_eye_aspect_ratio eye_landmarks shape =
     (let points = map (to_pixel shape) eye_landmarks in
      if length points < 6 then Inl IndexError
      else
        let A = euclidean (points ! 1) (points ! 5);
            B = euclidean (points ! 2) (points ! 4);
            C = euclidean (points ! 0) (points ! 3)
        in if 2 * C = 0 then Inl ZeroDivisionError else Inr ((A + B) / (2 * C)))"

text \<open>The variable \<open>distance\<close> of \<open>get_eyebrow_height\<close>, for non-empty point lists.\<close>

definition brow_distance :: "landmark list \<Rightarrow> landmark list \<Rightarrow> frame_shape \<Rightarrow> real" where
  "brow_distance eyebrow_landmarks eye_landmarks shape =
     (let eyebrow_points = map (to_pixel shape) eyebrow_landmarks;
          eye_points = map (to_pixel shape) eye_landmarks;
          eyebrow_y = of_int (sum_list (map snd eyebrow_points)) / of_nat (length eyebrow_points);
          eye_y = of_int (sum_list (map snd eye_points)) / of_nat (length eye_points)
      in \<bar>eyebrow_y - eye_y\<bar>)"

text \<open>\<open>get_eyebrow_height\<close>; a mean over an empty list divides by \<open>len(...) = 0\<close>.\<close>

definition get_eyebrow_height ::
  "landmark list \<Rightarrow> landmark list \<Rightarrow> frame_shape \<Rightarrow> py_error + real" where
  "get_eyebrow_height eyebrow_landmarks eye_landmarks shape =
     (if eyebrow_landmarks = [] \<or> eye_landmarks = [] then Inl ZeroDivisionError
      else
        let distance = brow_distance eyebrow_landmarks eye_landmarks shape
        in Inr (max 0 (min 1 ((distance - 20) / 40))))"

definition LEFT_IRIS :: "nat list" where
  "LEFT_IRIS = [468, 469, 470, 471, 472]"

definition RIGHT_IRIS :: "nat list" where
  "RIGHT_IRIS = [473, 474, 475, 476, 477]"

text \<open>\<open>get_iris_center\<close>: the centroid (floor division) of the iris points that exist.\<close>

definition get_iris_center :: "landmark list \<Rightarrow> bool \<Rightarrow> frame_shape \<Rightarrow> (int \<times> int) option" where
  "get_iris_center landmarks is_left_eye shape =
     (let iris_landmarks = (if is_left_eye then LEFT_IRIS else RIGHT_IRIS);
          iris_points = map (\<lambda>i. to_pixel shape (landmarks ! i))
                          (filter (\<lambda>i. i < length landmarks) iris_landmarks)
      in
      if 3 \<le> length iris_points then
        Some (sum_list (map fst iris_points) div int (length iris_points),
              sum_list (map snd iris_points) div int (length iris_points))
      else None)"

subsection \<open>\<open>detect_eye_movement\<close>\<close>

text \<open>
  The normalised midpoint of the two centres, as computed before it is pushed into the
  history (iris centres replace the given ones when both exist).
\<close>

definition gaze_sample ::
  "int \<times> int \<Rightarrow> int \<times> int \<Rightarrow> frame_shape \<Rightarrow> landmark list option \<Rightarrow> real \<times> real" where
  "gaze_sample left_center right_center shape landmarks =
     (let (lc, rc) =
            (case landmarks of
               None \<Rightarrow> (left_center, right_center)
             | Some lms \<Rightarrow>
                 (case (get_iris_center lms True shape, get_iris_center lms False shape) of
                    (Some li, Some ri) \<Rightarrow> (li, ri)
                  | _ \<Rightarrow> (left_center, right_center)));
          left_x_norm = of_int (fst lc) / of_int (snd shape);
          left_y_norm = of_int (snd lc) / of_int (fst shape);
          right_x_norm = of_int (fst rc) / of_int (snd shape);
          right_y_norm = of_int (snd rc) / of_int (fst shape)
      in ((left_x_norm + right_x_norm) / 2, (left_y_norm + right_y_norm) / 2))"

text \<open>
  The method returns the label, the smoothed position and the tracker with the new
  history. Dividing by a zero frame dimension raises before the history is touched.
\<close>

definition detect_eye_movement ::
  "tracker \<Rightarrow> int \<times> int \<Rightarrow> int \<times> int \<Rightarrow> frame_shape \<Rightarrow> landmark list option \<Rightarrow>
   py_error + (string \<times> (real \<times> real)) \<times> tracker" where
  "detect_eye_movement s left_center right_center shape landmarks =
     (if snd shape = 0 \<or> fst shape = 0 then Inl ZeroDivisionError
      else
        let h1 = eye_movement_history s @ [gaze_sample left_center right_center shape landmarks];
            h2 = (if history_size < length h1 then tl h1 else h1);
            avg_x = sum_list (map fst h2) / of_nat (length h2);
            avg_y = sum_list (map snd h2) / of_nat (length h2);
            d1 = (if avg_x < 42 / 100 then ''IZQUIERDA''
                  else if 58 / 100 < avg_x then ''DERECHA'' else ''CENTRO'');
            direction = (if avg_y < 42 / 100 then d1 @ ''_ARRIBA''
                         else if 58 / 100 < avg_y then d1 @ ''_ABAJO'' else d1)
        in Inr ((direction, (avg_x, avg_y)), s\<lparr>eye_movement_history := h2\<rparr>))"

text \<open>
  Consecutive calls; the result is that of the last call (\<open>None\<close> for no call) with the
  final tracker, and the first error ends the run as the exception would.
\<close>

fun detect_eye_movements ::
  "tracker \<Rightarrow> ((int \<times> int) \<times> (int \<times> int) \<times> frame_shape \<times> landmark list option) list \<Rightarrow>
   py_error + (string \<times> (real \<times> real)) option \<times> tracker" where
  "detect_eye_movements s [] = Inr (None, s)"
| "detect_eye_movements s ((lc, rc, shape, lms) # cs) =
     (case detect_eye_movement s lc rc shape lms of
        Inl e \<Rightarrow> Inl e
      | Inr (r, s') \<Rightarrow>
          (if cs = [] then Inr (Some r, s') else detect_eye_movements s' cs))"

subsection \<open>\<open>update_am_state\<close>\<close>

text \<open>
  \<open>am_openness\<close> starts as \<open>0.0\<close> and only ever receives \<open>0\<close> or itself plus or minus
  \<open>2\<close>, clamped to \<open>0..100\<close>: every value is an integer, held exactly.
\<close>

definition update_am_state :: "tracker \<Rightarrow> real \<Rightarrow> bool \<Rightarrow> string \<Rightarrow> tracker" where
  "update_am_state s now client_detected gaze_direction =
     (if now - am_last_update s < AM_FRAME_INTERVAL then s
      else
        let s1 = s\<lparr>am_last_update := now\<rparr> in
        if \<not> client_detected then s1\<lparr>am_openness := 0\<rparr>
        else
          let opened = max 0 (min 100 (am_openness s1 + am_open_dir s1 * 2));
              dir = (if opened = 0 \<or> opened = 100 then am_open_dir s1 * (- 1)
                     else am_open_dir s1);
              phase = (if sublist ''IZQUIERDA'' gaze_direction then - (8 / 10)
                       else if sublist ''DERECHA'' gaze_direction then 8 / 10 else 0)
          in s1\<lparr>am_openness := opened, am_open_dir := dir, am_phase := phase\<rparr>)"

text \<open>Consecutive ticks with a face detected, each with its clock reading and label.\<close>

fun am_ticks :: "tracker \<Rightarrow> (real \<times> string) list \<Rightarrow> tracker" where
  "am_ticks s [] = s"
| "am_ticks s (t # ts) = am_ticks (update_am_state s (fst t) True (snd t)) ts"

subsection \<open>The session recorder\<close>

text \<open>\<open>round(x, n)\<close> on a real: to the nearest multiple of \<open>10\<^sup>-\<^sup>n\<close>, ties to even.\<close>

definition py_round :: "real \<Rightarrow> nat \<Rightarrow> real" where
  "py_round x n =
     (let y = x * 10 ^ n; f = \<lfloor>y\<rfloor>; d = y - of_int f;
          k = (if d < 1 / 2 then f else if 1 / 2 < d then f + 1
               else if even f then f else f + 1)
      in of_int k / 10 ^ n)"

text \<open>\<open>start_recording\<close>; the two arguments are its two clock readings.\<close>

definition start_recording :: "tracker \<Rightarrow> real \<Rightarrow> real \<Rightarrow> tracker" where
  "start_recording s now now' =
     (if \<not> is_recording s then
        s\<lparr>is_recording := True, animation_frames := [], video_frames := [],
          recording_start_time := now, last_frame_time := now'\<rparr>
      else s)"

text \<open>
  \<open>stop_recording\<close>. Both writers receive their data only when both buffers are
  non-empty; a failing write is caught and reported by the source and changes nothing
  of the tracker.
\<close>

definition stop_recording :: "tracker \<Rightarrow> real \<Rightarrow> tracker" where
  "stop_recording s now =
     (if is_recording s then
        let s1 = s\<lparr>is_recording := False, stops := stops s + 1\<rparr>;
            total_time = now - recording_start_time s1;
            s2 = (if 0 < length (animation_frames s1) \<and> 0 < length (video_frames s1) then
                    s1\<lparr>saved := saved s1 @
                      [\<lparr>art_duration = total_time,
                        art_total_frames = length (animation_frames s1),
                        art_fps = (if 0 < total_time
                                   then of_nat (length (animation_frames s1)) / total_time
                                   else 30),
                        art_frames = animation_frames s1,
                        art_video = video_frames s1\<rparr>]\<rparr>
                  else s1)
        in s2\<lparr>video_frames := []\<rparr>
      else s)"

text \<open>The arguments of one call of \<open>capture_frame_for_recording\<close> and its clock readings.\<close>

record capture_call =
  cc_now :: real
  cc_now_stop :: real
  cc_left_ear :: real
  cc_right_ear :: real
  cc_gaze_direction :: string
  cc_gaze_pos :: "real \<times> real"
  cc_left_brow :: real
  cc_right_brow :: real
  cc_virtual_frame :: image

definition capture_frame_for_recording :: "tracker \<Rightarrow> capture_call \<Rightarrow> tracker" where
  "capture_frame_for_recording s c =
     (if \<not> is_recording s then s
      else if max_recording_time < cc_now c - recording_start_time s then
        stop_recording s (cc_now_stop c)
      else if frame_interval \<le> cc_now c - last_frame_time s then
        let frame_data =
              \<lparr>fd_timestamp = cc_now c - recording_start_time s,
                fd_mode = visualization_mode s,
                fd_left_ear = py_round (cc_left_ear c) 3,
                fd_right_ear = py_round (cc_right_ear c) 3,
                fd_gaze_x = py_round (fst (cc_gaze_pos c)) 3,
                fd_gaze_y = py_round (snd (cc_gaze_pos c)) 3,
                fd_left_brow = py_round (cc_left_brow c) 2,
                fd_right_brow = py_round (cc_right_brow c) 2,
                fd_direction = cc_gaze_direction c,
                fd_am_phase = (if visualization_mode s = AM
                               then Some (py_round (am_phase s) 2) else None)\<rparr>;
            video_frame_exact =
              \<lparr>vf_image = cc_virtual_frame c,
                vf_elapsed = cc_now c - recording_start_time s\<rparr>
        in s\<lparr>animation_frames := animation_frames s @ [frame_data],
             video_frames := video_frames s @ [video_frame_exact],
             last_frame_time := cc_now c\<rparr>
      else s)"

fun captures :: "tracker \<Rightarrow> capture_call list \<Rightarrow> tracker" where
  "captures s [] = s"
| "captures s (c # cs) = captures (capture_frame_for_recording s c) cs"

subsection \<open>\<open>draw_virtual_eyes\<close>\<close>

text \<open>
  What the renderer decides before it paints: the label of its own classifier call, the
  two heights, and in the two rectangle modes the corners \<open>(x1, y1, x2, y2)\<close> of each box
  (the AM mode draws a wave instead).
\<close>

record eye_render =
  er_eye_state :: eye_state_label
  er_left_height :: int
  er_right_height :: int
  er_left_rect :: "(int \<times> int \<times> int \<times> int) option"
  er_right_rect :: "(int \<times> int \<times> int \<times> int) option"

definition base_height :: "real \<Rightarrow> int" where
  "base_height ear = max 8 (min 100 (py_int ((ear / (35 / 100)) * 100)))"

definition draw_virtual_eyes ::
  "tracker \<Rightarrow> real \<Rightarrow> real \<Rightarrow> real \<times> real \<Rightarrow> bool \<Rightarrow> eye_render \<times> tracker" where
  "draw_virtual_eyes s left_ear right_ear gaze_pos for_video =
     (let base_left_x = (if for_video then 200 else 150);
          base_right_x = (if for_video then 600 else 300);
          base_y = 200;
          movement_multiplier_x = (if for_video then 180 else 120);
          movement_multiplier_y = (if for_video then 120 else 80);
          virtual_left_x = py_int (base_left_x + (fst gaze_pos - 1 / 2) * movement_multiplier_x);
          virtual_left_y = py_int (base_y + (snd gaze_pos - 1 / 2) * movement_multiplier_y);
          virtual_right_x = py_int (base_right_x + (fst gaze_pos - 1 / 2) * movement_multiplier_x);
          virtual_right_y = py_int (base_y + (snd gaze_pos - 1 / 2) * movement_multiplier_y);
          base_left_height = base_height left_ear;
          base_right_height = base_height right_ear;
          (eye_state, s') = detect_eye_state s left_ear right_ear;
          (left_height, right_height) =
            (if both_eyes_closed s' \<or> eye_state = AMBOS_CERRADOS then
               (base_left_height div 2, base_right_height div 2)
             else if left_winking s' \<or> eye_state = GUINANDO_IZQUIERDO then
               (base_left_height div 2, base_right_height)
             else if right_winking s' \<or> eye_state = GUINANDO_DERECHO then
               (base_left_height, base_right_height div 2)
             else (base_left_height, base_right_height));
          rect_width = 80;
          left_rect = (virtual_left_x - rect_width div 2, virtual_left_y - left_height div 2,
                       virtual_left_x + rect_width div 2, virtual_left_y + left_height div 2);
          right_rect = (virtual_right_x - rect_width div 2, virtual_right_y - right_height div 2,
                        virtual_right_x + rect_width div 2, virtual_right_y + right_height div 2)
      in
      (\<lparr>er_eye_state = eye_state, er_left_height = left_height, er_right_height = right_height,
        er_left_rect = (if visualization_mode s' = AM then None else Some left_rect),
        er_right_rect = (if visualization_mode s' = AM then None else Some right_rect)\<rparr>,
       s'))"

subsection \<open>One pass of the main loop, as far as the eye state goes\<close>

text \<open>
  \<open>run_virtual_eye_tracker\<close> calls \<open>process_frame\<close> and then \<open>draw_virtual_eyes\<close> with
  the values \<open>process_frame\<close> returned. With a face (\<open>Some\<close> of the two EAR values) the
  classifier therefore runs in both; without one, \<open>process_frame\<close> returns the default
  \<open>0.3\<close> for both eyes and only the renderer classifies. The calls between the two
  (\<open>update_am_state\<close>) and after them (the recorder) touch no field the classifier reads.
\<close>

definition frame_eye_pass ::
  "tracker \<Rightarrow> (real \<times> real) option \<Rightarrow> real \<times> real \<Rightarrow> eye_render \<times> tracker" where
  "frame_eye_pass s detection gaze_pos =
     (case detection of
        None \<Rightarrow> draw_virtual_eyes s (3 / 10) (3 / 10) gaze_pos False
      | Some (left_ear, right_ear) \<Rightarrow>
          draw_virtual_eyes (process_frame_eyes s left_ear right_ear)
            left_ear right_ear gaze_pos False)"

section \<open>Notions used to state the properties\<close>

subsection \<open>Completed closure runs\<close>

text \<open>
  Over the frames of one eye (\<open>True\<close>: EAR below the blink threshold), the number of
  maximal runs of at least two closed frames that are followed by an open frame.
\<close>

function completed_runs :: "bool list \<Rightarrow> nat" where
  "completed_runs [] = 0"
| "completed_runs (False # bs) = completed_runs bs"
| "completed_runs (True # bs) =
     (let run = takeWhile (\<lambda>b. b) (True # bs); rest = dropWhile (\<lambda>b. b) (True # bs)
      in (if rest \<noteq> [] \<and> 2 \<le> length run then 1 else 0) + completed_runs rest)"
  by pat_completeness auto
termination
  by (relation "measure length") (auto simp: length_dropWhile_le less_Suc_eq_le)

subsection \<open>The triangle wave\<close>

text \<open>
  The wave of period \<open>100\<close> ticks that rises from \<open>0\<close> to \<open>100\<close> in \<open>50\<close> steps of \<open>2\<close>
  and falls back in \<open>50\<close> steps of \<open>2\<close>; \<open>on_wave s p\<close>: the oscillator stands at tick
  \<open>p\<close> of it, rising in the first half of a period and falling in the second.
\<close>

definition triangle_wave :: "nat \<Rightarrow> int" where
  "triangle_wave n = (let k = n mod 100 in if k \<le> 50 then 2 * int k else 200 - 2 * int k)"

definition on_wave :: "tracker \<Rightarrow> nat \<Rightarrow> bool" where
  "on_wave s p \<longleftrightarrow>
     am_openness s = triangle_wave p \<and> am_open_dir s = (if p mod 100 < 50 then 1 else - 1)"

text \<open>Clock readings each at least \<open>40\<close> ms after the one before.\<close>

fun ticks_spaced :: "real \<Rightarrow> real list \<Rightarrow> bool" where
  "ticks_spaced prev [] = True"
| "ticks_spaced prev (t # ts) = (AM_FRAME_INTERVAL \<le> t - prev \<and> ticks_spaced t ts)"

subsection \<open>Eyebrow elevation as the specification writes it\<close>

text \<open>The mean of the pixel rows of a point set.\<close>

definition mean_y :: "landmark list \<Rightarrow> frame_shape \<Rightarrow> real" where
  "mean_y ls shape =
     of_int (sum_list (map (\<lambda>l. snd (to_pixel shape l)) ls)) / of_nat (length ls)"

text \<open>\<open>clamp((mean(eyebrow_y) - mean(eye_y)) - 20, 0, 40) / 40\<close>, the difference signed.\<close>

definition spec_eyebrow_elevation ::
  "landmark list \<Rightarrow> landmark list \<Rightarrow> frame_shape \<Rightarrow> real" where
  "spec_eyebrow_elevation eyebrow eye shape =
     max 0 (min 40 ((mean_y eyebrow shape - mean_y eye shape) - 20)) / 40"

subsection \<open>Distance between two contour points\<close>

text \<open>The Euclidean distance of two landmarks on their pixel-truncated coordinates.\<close>

definition pixel_dist :: "frame_shape \<Rightarrow> landmark \<Rightarrow> landmark \<Rightarrow> real" where
  "pixel_dist shape p q =
     sqrt ((of_int (fst (to_pixel shape p)) - of_int (fst (to_pixel shape q)))\<^sup>2 +
           (of_int (snd (to_pixel shape p)) - of_int (snd (to_pixel shape q)))\<^sup>2)"

subsection \<open>Spacing of captured samples\<close>

text \<open>Successive timestamps each at least one capture interval after the one before.\<close>

fun gaps_ok :: "real list \<Rightarrow> bool" where
  "gaps_ok [] = True"
| "gaps_ok [t] = True"
| "gaps_ok (t # u # ts) = (frame_interval \<le> u - t \<and> gaps_ok (u # ts))"

text \<open>
  The log is spaced and the last accepted capture is the one \<open>last_frame_time\<close>
  remembers; the two buffers are empty together.
\<close>

definition rec_inv :: "tracker \<Rightarrow> bool" where
  "rec_inv s \<longleftrightarrow>
     gaps_ok (map fd_timestamp (animation_frames s)) \<and>
     (animation_frames s = [] \<or>
      fd_timestamp (last (animation_frames s)) = last_frame_time s - recording_start_time s)"

text \<open>
  A capture call at clock reading \<open>now\<close> carrying the values \<open>process_frame\<close> returns for a
  frame without a face.
\<close>

definition call_at :: "real \<Rightarrow> capture_call" where
  "call_at now =
     \<lparr>cc_now = now, cc_now_stop = now, cc_left_ear = 3 / 10, cc_right_ear = 3 / 10,
      cc_gaze_direction = ''NO_DETECTADO'', cc_gaze_pos = (1 / 2, 1 / 2),
      cc_left_brow = 1 / 2, cc_right_brow = 1 / 2, cc_virtual_frame = []\<rparr>"

subsection \<open>Gaze direction as the specification writes it\<close>

text \<open>The two components of a direction and the thresholds that select them.\<close>

datatype horizontal = H_LEFT | H_CENTER | H_RIGHT

datatype vertical = V_UP | V_CENTER | V_DOWN

definition horizontal_of :: "real \<Rightarrow> horizontal" where
  "horizontal_of x =
     (if x < 42 / 100 then H_LEFT else if 58 / 100 < x then H_RIGHT else H_CENTER)"

definition vertical_of :: "real \<Rightarrow> vertical" where
  "vertical_of y =
     (if y < 42 / 100 then V_UP else if 58 / 100 < y then V_DOWN else V_CENTER)"

text \<open>
  The label of a pair of components, in the words of the source: the horizontal word,
  then the vertical word after an underscore; a central vertical component adds nothing.
\<close>

definition label_of :: "horizontal \<Rightarrow> vertical \<Rightarrow> string" where
  "label_of h v =
     (case h of H_LEFT \<Rightarrow> ''IZQUIERDA'' | H_RIGHT \<Rightarrow> ''DERECHA'' | H_CENTER \<Rightarrow> ''CENTRO'') @
     (case v of V_UP \<Rightarrow> ''_ARRIBA'' | V_DOWN \<Rightarrow> ''_ABAJO'' | V_CENTER \<Rightarrow> [])"

text \<open>The arithmetic mean of a list of positions, and the last \<open>n\<close> entries of a list.\<close>

definition mean_pos :: "(real \<times> real) list \<Rightarrow> real \<times> real" where
  "mean_pos h =
     (sum_list (map fst h) / of_nat (length h), sum_list (map snd h) / of_nat (length h))"

definition last_n :: "nat \<Rightarrow> 'a list \<Rightarrow> 'a list" where
  "last_n n xs = drop (length xs - n) xs"

text \<open>The sample a call pushes, and whether its frame has non-zero dimensions.\<close>

definition call_sample ::
  "(int \<times> int) \<times> (int \<times> int) \<times> frame_shape \<times> landmark list option \<Rightarrow> real \<times> real" where
  "call_sample c = (case c of (lc, rc, shape, lms) \<Rightarrow> gaze_sample lc rc shape lms)"

definition call_valid ::
  "(int \<times> int) \<times> (int \<times> int) \<times> frame_shape \<times> landmark list option \<Rightarrow> bool" where
  "call_valid c = (case c of (lc, rc, shape, lms) \<Rightarrow> fst shape \<noteq> 0 \<and> snd shape \<noteq> 0)"

text \<open>
  The sample in the words of the specification: the midpoint of the two centres (the
  iris centres when both exist, else the given eye centres), normalised to the frame
  dimensions, columns by the width and rows by the height.
\<close>

definition normalized_midpoint ::
  "(int \<times> int) \<times> (int \<times> int) \<times> frame_shape \<times> landmark list option \<Rightarrow> real \<times> real" where
  "normalized_midpoint c =
     (case c of (lc, rc, shape, lms) \<Rightarrow>
        let (l, r) =
              (case lms of
                 None \<Rightarrow> (lc, rc)
               | Some ls \<Rightarrow>
                   (case get_iris_center ls True shape of
                      None \<Rightarrow> (lc, rc)
                    | Some li \<Rightarrow>
                        (case get_iris_center ls False shape of
                           None \<Rightarrow> (lc, rc)
                         | Some ri \<Rightarrow> (li, ri))))
        in ((of_int (fst l) + of_int (fst r)) / 2 / of_int (snd shape),
            (of_int (snd l) + of_int (snd r)) / 2 / of_int (fst shape)))"

subsection \<open>Box heights as the specification writes them\<close>

text \<open>
  \<open>clamp(8, 100, EAR/0.35 * 100)\<close>, halved on the side or sides that the eye state
  names, as a pair (left, right).
\<close>

definition spec_base_height :: "real \<Rightarrow> real" where
  "spec_base_height ear = max 8 (min 100 (ear / (35 / 100) * 100))"

definition spec_box_heights :: "eye_state_label \<Rightarrow> real \<Rightarrow> real \<Rightarrow> real \<times> real" where
  "spec_box_heights st left_ear right_ear =
     (if st = AMBOS_CERRADOS then (spec_base_height left_ear / 2, spec_base_height right_ear / 2)
      else if st = GUINANDO_IZQUIERDO then (spec_base_height left_ear / 2, spec_base_height right_ear)
      else if st = GUINANDO_DERECHO then (spec_base_height left_ear, spec_base_height right_ear / 2)
      else (spec_base_height left_ear, spec_base_height right_ear))"

section \<open>Properties\<close>

subsection \<open>Facts about \<open>detect_eye_state\<close>\<close>

lemma detect_both_closed:
  "left_ear < wink_threshold \<Longrightarrow> right_ear < wink_threshold \<Longrightarrow>
   detect_eye_state s left_ear right_ear =
     (AMBOS_CERRADOS,
      s\<lparr>both_eyes_closed := True, left_winking := False, right_winking := False\<rparr>)"
  by (simp add: detect_eye_state_def)

lemma detect_both_open:
  "\<not> left_ear < wink_threshold \<Longrightarrow> \<not> right_ear < wink_threshold \<Longrightarrow>
   detect_eye_state s left_ear right_ear =
     (AMBOS_ABIERTOS,
      s\<lparr>left_wink_counter := 0, right_wink_counter := 0,
        left_winking := False, right_winking := False, both_eyes_closed := False\<rparr>)"
  by (simp add: detect_eye_state_def)

lemma detect_left_only:
  "left_ear < wink_threshold \<Longrightarrow> \<not> right_ear < wink_threshold \<Longrightarrow>
   detect_eye_state s left_ear right_ear =
     (if consecutive_frames \<le> left_wink_counter s + 1
      then (GUINANDO_IZQUIERDO,
            s\<lparr>left_wink_counter := left_wink_counter s + 1,
              left_winking := True, right_winking := False, both_eyes_closed := False\<rparr>)
      else (NORMAL,
            s\<lparr>left_wink_counter := left_wink_counter s + 1, right_wink_counter := 0\<rparr>))"
  by (simp add: detect_eye_state_def)

lemma detect_right_only:
  "\<not> left_ear < wink_threshold \<Longrightarrow> right_ear < wink_threshold \<Longrightarrow>
   detect_eye_state s left_ear right_ear =
     (if consecutive_frames \<le> right_wink_counter s + 1
      then (GUINANDO_DERECHO,
            s\<lparr>left_wink_counter := 0, right_wink_counter := right_wink_counter s + 1,
              right_winking := True, left_winking := False, both_eyes_closed := False\<rparr>)
      else (NORMAL,
            s\<lparr>left_wink_counter := 0, right_wink_counter := right_wink_counter s + 1\<rparr>))"
  by (simp add: detect_eye_state_def)

text \<open>
  Two consecutive evaluations with only the left eye closed end in a left wink, whatever
  the state before; with only the right eye closed no evaluation reports a left wink.
\<close>

lemma two_left_only_evaluations_wink:
  assumes "l1 < wink_threshold" "\<not> r1 < wink_threshold"
      and "l2 < wink_threshold" "\<not> r2 < wink_threshold"
  shows "fst (detect_eye_state (snd (detect_eye_state s l1 r1)) l2 r2) = GUINANDO_IZQUIERDO"
  using assms by (simp add: detect_left_only consecutive_frames_def)

lemma two_right_only_evaluations_wink:
  assumes "\<not> l1 < wink_threshold" "r1 < wink_threshold"
      and "\<not> l2 < wink_threshold" "r2 < wink_threshold"
  shows "fst (detect_eye_state (snd (detect_eye_state s l1 r1)) l2 r2) = GUINANDO_DERECHO"
  using assms by (simp add: detect_right_only consecutive_frames_def)

lemma right_only_never_left_wink:
  "\<not> left_ear < wink_threshold \<Longrightarrow>
   fst (detect_eye_state s left_ear right_ear) \<noteq> GUINANDO_IZQUIERDO"
  by (simp add: detect_eye_state_def Let_def)

lemma left_only_never_right_wink:
  "\<not> right_ear < wink_threshold \<Longrightarrow>
   fst (detect_eye_state s left_ear right_ear) \<noteq> GUINANDO_DERECHO"
  by (simp add: detect_eye_state_def Let_def)

subsection \<open>C1: the precedence of the classifier\<close>

text \<open>
  C1 says that an evaluation with both EARs below \<open>0.18\<close> returns the both-closed label
  and resets both wink counters, overriding a pending debounce. The label is returned
  (\<open>detect_both_closed\<close>), and the other parts of the claim hold
  (\<open>two_left_only_evaluations_wink\<close>, \<open>right_only_never_left_wink\<close>, \<open>detect_both_open\<close>),
  but the both-closed branch returns before any counter is touched. Started from the
  initial tracker, one evaluation with only the left eye closed, one with both eyes
  closed and one more with only the left eye closed give the labels below: the left
  wink counter is still \<open>1\<close> after the both-closed evaluation, and the third evaluation
  reports a left wink although the one-sided closure before it lasted one evaluation.
\<close>

theorem both_closed_keeps_wink_counter:
  "fst (detect_eye_states (init_tracker 0) [(1 / 10, 3 / 10), (1 / 10, 1 / 10), (1 / 10, 3 / 10)])
     = [NORMAL, AMBOS_CERRADOS, GUINANDO_IZQUIERDO] \<and>
   left_wink_counter
     (snd (detect_eye_states (init_tracker 0) [(1 / 10, 3 / 10), (1 / 10, 1 / 10)])) = 1"
  by (simp add: detect_eye_state_def init_tracker_def wink_threshold_def
      consecutive_frames_def)

subsection \<open>C10: two classifier calls per external frame\<close>


lemma frame_pass_left_only:
  assumes "left_ear < wink_threshold" "\<not> right_ear < wink_threshold"
  shows "er_eye_state (fst (frame_eye_pass s (Some (left_ear, right_ear)) gaze_pos))
           = GUINANDO_IZQUIERDO \<and>
         left_wink_counter (snd (frame_eye_pass s (Some (left_ear, right_ear)) gaze_pos))
           = left_wink_counter s + 2"
  using assms
  by (simp add: frame_eye_pass_def draw_virtual_eyes_def process_frame_eyes_def Let_def
      detect_left_only consecutive_frames_def split: prod.splits)

lemma frame_pass_right_only:
  assumes "\<not> left_ear < wink_threshold" "right_ear < wink_threshold"
  shows "er_eye_state (fst (frame_eye_pass s (Some (left_ear, right_ear)) gaze_pos))
           = GUINANDO_DERECHO \<and>
         right_wink_counter (snd (frame_eye_pass s (Some (left_ear, right_ear)) gaze_pos))
           = right_wink_counter s + 2"
  using assms
  by (simp add: frame_eye_pass_def draw_virtual_eyes_def process_frame_eyes_def Let_def
      detect_right_only consecutive_frames_def split: prod.splits)

text \<open>
  C10: with a face detected, one pass of the main loop calls the classifier once in
  \<open>process_frame\<close> and once in \<open>draw_virtual_eyes\<close>. A frame with exactly one eye's EAR
  below \<open>0.18\<close> therefore advances that eye's wink counter by two, and the renderer's
  label is the wink of that eye after this single frame, whatever the tracker held
  before.
\<close>

theorem one_frame_satisfies_debounce:
  "(left_ear < wink_threshold \<and> \<not> right_ear < wink_threshold \<longrightarrow>
      er_eye_state (fst (frame_eye_pass s (Some (left_ear, right_ear)) gaze_pos))
        = GUINANDO_IZQUIERDO \<and>
      left_wink_counter (snd (frame_eye_pass s (Some (left_ear, right_ear)) gaze_pos))
        = left_wink_counter s + 2) \<and>
   (\<not> left_ear < wink_threshold \<and> right_ear < wink_threshold \<longrightarrow>
      er_eye_state (fst (frame_eye_pass s (Some (left_ear, right_ear)) gaze_pos))
        = GUINANDO_DERECHO \<and>
      right_wink_counter (snd (frame_eye_pass s (Some (left_ear, right_ear)) gaze_pos))
        = right_wink_counter s + 2)"
  using frame_pass_left_only [of left_ear right_ear s gaze_pos]
    frame_pass_right_only [of left_ear right_ear s gaze_pos]
  by blast

theorem one_frame_satisfies_debounce_witness:
  "(1 / 10 :: real) < wink_threshold \<and> \<not> (3 / 10 :: real) < wink_threshold \<and>
   er_eye_state (fst (frame_eye_pass (init_tracker 0) (Some (1 / 10, 3 / 10)) (1 / 2, 1 / 2)))
     = GUINANDO_IZQUIERDO \<and>
   left_wink_counter (snd (frame_eye_pass (init_tracker 0) (Some (1 / 10, 3 / 10)) (1 / 2, 1 / 2)))
     = 2"
  using one_frame_satisfies_debounce [of "1 / 10" "3 / 10" "init_tracker 0" "(1 / 2, 1 / 2)"]
  by (simp add: wink_threshold_def init_tracker_def)

subsection \<open>C2: blink totals\<close>

lemma completed_runs_all_closed: "completed_runs (replicate c True) = 0"
  by (cases c) (simp_all add: Let_def)

lemma takeWhile_replicate_True:
  "takeWhile (\<lambda>b. b) (replicate c True @ False # xs) = replicate c True"
  by (induction c) simp_all

lemma dropWhile_replicate_True:
  "dropWhile (\<lambda>b. b) (replicate c True @ False # xs) = False # xs"
  by (induction c) simp_all

text \<open>A run that is already \<open>c\<close> frames long when the list starts.\<close>

lemma completed_runs_pending:
  "completed_runs (replicate c True @ False # xs) =
     (if 2 \<le> c then 1 else 0) + completed_runs xs"
proof (cases c)
  case 0
  then show ?thesis by simp
next
  case (Suc k)
  have "completed_runs (True # replicate k True @ False # xs) =
        (if 2 \<le> Suc k then 1 else 0) + completed_runs (False # xs)"
    using takeWhile_replicate_True [of "Suc k" xs] dropWhile_replicate_True [of "Suc k" xs]
    by (simp add: Let_def)
  with Suc show ?thesis by simp
qed

text \<open>One frame, per eye: neither the other eye nor the wink fields enter.\<close>

lemma left_blink_step:
  "left_blink_counter (process_frame_eyes s l r) =
     (if l < blink_threshold then left_blink_counter s + 1 else 0)"
  "left_blink_total (process_frame_eyes s l r) =
     (if l < blink_threshold then left_blink_total s
      else if consecutive_frames \<le> left_blink_counter s then left_blink_total s + 1
      else left_blink_total s)"
  by (simp_all add: process_frame_eyes_def detect_eye_state_def Let_def)

lemma right_blink_step:
  "right_blink_counter (process_frame_eyes s l r) =
     (if r < blink_threshold then right_blink_counter s + 1 else 0)"
  "right_blink_total (process_frame_eyes s l r) =
     (if r < blink_threshold then right_blink_total s
      else if consecutive_frames \<le> right_blink_counter s then right_blink_total s + 1
      else right_blink_total s)"
  by (simp_all add: process_frame_eyes_def detect_eye_state_def Let_def)

text \<open>
  The counter a run starts with stands for that many closed frames before the list.
\<close>

lemma left_total_runs:
  "left_blink_total (process_frames_eyes s es) =
     left_blink_total s +
     completed_runs (replicate (left_blink_counter s) True @
                     map (\<lambda>e. fst e < blink_threshold) es)"
proof (induction es arbitrary: s)
  case Nil
  show ?case by (simp add: completed_runs_all_closed)
next
  case (Cons e es)
  show ?case
  proof (cases "fst e < blink_threshold")
    case True
    then show ?thesis
      using Cons.IH [of "process_frame_eyes s (fst e) (snd e)"]
      by (simp add: left_blink_step replicate_app_Cons_same)
  next
    case False
    then show ?thesis
      using Cons.IH [of "process_frame_eyes s (fst e) (snd e)"]
      by (simp add: left_blink_step completed_runs_pending consecutive_frames_def)
  qed
qed

lemma right_total_runs:
  "right_blink_total (process_frames_eyes s es) =
     right_blink_total s +
     completed_runs (replicate (right_blink_counter s) True @
                     map (\<lambda>e. snd e < blink_threshold) es)"
proof (induction es arbitrary: s)
  case Nil
  show ?case by (simp add: completed_runs_all_closed)
next
  case (Cons e es)
  show ?case
  proof (cases "snd e < blink_threshold")
    case True
    then show ?thesis
      using Cons.IH [of "process_frame_eyes s (fst e) (snd e)"]
      by (simp add: right_blink_step replicate_app_Cons_same)
  next
    case False
    then show ?thesis
      using Cons.IH [of "process_frame_eyes s (fst e) (snd e)"]
      by (simp add: right_blink_step completed_runs_pending consecutive_frames_def)
  qed
qed

text \<open>
  C2: started with no closure run pending, after any sequence of frames with a detected
  face each eye's blink total has grown by exactly the number of maximal runs of at
  least two frames with that eye's EAR below \<open>0.20\<close> that a frame with EAR at least
  \<open>0.20\<close> followed. The count of one eye depends on that eye's EAR values alone: not on
  the other eye, and not on the wink counters or flags of the tracker.
\<close>

theorem blink_totals_count_completed_runs:
  assumes "left_blink_counter s = 0" and "right_blink_counter s = 0"
  shows "left_blink_total (process_frames_eyes s es) =
           left_blink_total s + completed_runs (map (\<lambda>e. fst e < blink_threshold) es) \<and>
         right_blink_total (process_frames_eyes s es) =
           right_blink_total s + completed_runs (map (\<lambda>e. snd e < blink_threshold) es)"
  using assms left_total_runs [of s es] right_total_runs [of s es] by simp

theorem blink_totals_count_completed_runs_witness:
  "left_blink_counter (init_tracker 0) = 0 \<and> right_blink_counter (init_tracker 0) = 0 \<and>
   left_blink_total (process_frames_eyes (init_tracker 0)
     [(1 / 10, 3 / 10), (1 / 10, 1 / 10), (3 / 10, 3 / 10), (1 / 10, 3 / 10), (3 / 10, 3 / 10)]) = 1 \<and>
   right_blink_total (process_frames_eyes (init_tracker 0)
     [(1 / 10, 3 / 10), (1 / 10, 1 / 10), (3 / 10, 3 / 10), (1 / 10, 3 / 10), (3 / 10, 3 / 10)]) = 0"
  using blink_totals_count_completed_runs [of "init_tracker 0"
     "[(1 / 10, 3 / 10), (1 / 10, 1 / 10), (3 / 10, 3 / 10), (1 / 10, 3 / 10), (3 / 10, 3 / 10)]"]
  by (simp add: init_tracker_def blink_threshold_def Let_def)

subsection \<open>C3: the animation oscillator\<close>

lemma tick_skipped:
  "now - am_last_update s < AM_FRAME_INTERVAL \<Longrightarrow> update_am_state s now det g = s"
  by (simp add: update_am_state_def)

lemma tick_no_face:
  "\<not> now - am_last_update s < AM_FRAME_INTERVAL \<Longrightarrow>
   update_am_state s now False g = s\<lparr>am_last_update := now, am_openness := 0\<rparr>"
  by (simp add: update_am_state_def)

lemma tick_face:
  "\<not> now - am_last_update s < AM_FRAME_INTERVAL \<Longrightarrow>
   am_last_update (update_am_state s now True g) = now \<and>
   am_openness (update_am_state s now True g) =
     max 0 (min 100 (am_openness s + 2 * am_open_dir s)) \<and>
   am_open_dir (update_am_state s now True g) =
     (if am_openness (update_am_state s now True g) = 0 \<or>
         am_openness (update_am_state s now True g) = 100
      then - am_open_dir s else am_open_dir s)"
  by (simp add: update_am_state_def Let_def mult.commute)

lemma triangle_wave_step:
  "triangle_wave (Suc n) = triangle_wave n + (if n mod 100 < 50 then 2 else - 2)"
proof -
  have "Suc n mod 100 = (if n mod 100 = 99 then 0 else Suc (n mod 100))"
    by (simp add: mod_Suc)
  moreover have "n mod 100 < 100" by simp
  ultimately show ?thesis
    unfolding triangle_wave_def Let_def by (auto split: if_splits)
qed

lemma triangle_wave_range: "0 \<le> triangle_wave n \<and> triangle_wave n \<le> 100"
proof -
  have "n mod 100 < 100" by simp
  then show ?thesis unfolding triangle_wave_def Let_def by (auto split: if_splits)
qed

lemma on_wave_step:
  assumes "on_wave s p" "\<not> now - am_last_update s < AM_FRAME_INTERVAL"
  shows "on_wave (update_am_state s now True g) (Suc p)"
proof -
  have m: "Suc p mod 100 = (if p mod 100 = 99 then 0 else Suc (p mod 100))"
    by (simp add: mod_Suc)
  have lt: "p mod 100 < 100" by simp
  show ?thesis
    using assms(1) tick_face [OF assms(2), of g] m lt
    unfolding on_wave_def triangle_wave_def Let_def
    by (auto split: if_splits)
qed

lemma on_wave_run:
  "on_wave s p \<Longrightarrow> ticks_spaced (am_last_update s) (map fst ts) \<Longrightarrow>
   on_wave (am_ticks s ts) (p + length ts)"
proof (induction ts arbitrary: s p)
  case Nil
  then show ?case by simp
next
  case (Cons t ts)
  have a: "\<not> fst t - am_last_update s < AM_FRAME_INTERVAL"
    using Cons.prems(2) by simp
  have "on_wave (update_am_state s (fst t) True (snd t)) (Suc p)"
    using on_wave_step [OF Cons.prems(1) a] .
  moreover have
    "ticks_spaced (am_last_update (update_am_state s (fst t) True (snd t))) (map fst ts)"
    using Cons.prems(2) tick_face [OF a, of "snd t"] by simp
  ultimately show ?case
    using Cons.IH [of "update_am_state s (fst t) True (snd t)" "Suc p"] by simp
qed

text \<open>
  C3: a tick less than \<open>40\<close> ms after the last accepted one changes nothing. An accepted
  tick without a face sets the openness to \<open>0\<close> and leaves the direction as it was. An
  accepted tick with a face adds twice the direction to the openness, clamps the sum to
  \<open>0..100\<close> and flips the direction exactly when the clamped value is \<open>0\<close> or \<open>100\<close>.
  Started at openness \<open>0\<close> with direction \<open>+1\<close> (as the tracker is created) and ticked
  with a face at readings at least \<open>40\<close> ms apart, the openness after \<open>n\<close> ticks is the
  triangle wave at \<open>n\<close>: it starts at \<open>0\<close>, stays within \<open>0..100\<close>, rises by \<open>2\<close> for
  \<open>50\<close> ticks and falls by \<open>2\<close> for \<open>50\<close> ticks, period \<open>100\<close>.
\<close>

theorem am_oscillator_triangle_wave:
  "(now - am_last_update s < AM_FRAME_INTERVAL \<longrightarrow> update_am_state s now det g = s) \<and>
   (\<not> now - am_last_update s < AM_FRAME_INTERVAL \<longrightarrow>
      update_am_state s now False g = s\<lparr>am_last_update := now, am_openness := 0\<rparr> \<and>
      am_last_update (update_am_state s now True g) = now \<and>
      am_openness (update_am_state s now True g) =
        max 0 (min 100 (am_openness s + 2 * am_open_dir s)) \<and>
      am_open_dir (update_am_state s now True g) =
        (if am_openness (update_am_state s now True g) = 0 \<or>
            am_openness (update_am_state s now True g) = 100
         then - am_open_dir s else am_open_dir s)) \<and>
   (am_openness s = 0 \<and> am_open_dir s = 1 \<and> ticks_spaced (am_last_update s) (map fst ts) \<longrightarrow>
      am_openness (am_ticks s ts) = triangle_wave (length ts)) \<and>
   triangle_wave 0 = 0 \<and>
   triangle_wave (Suc n) = triangle_wave n + (if n mod 100 < 50 then 2 else - 2) \<and>
   0 \<le> triangle_wave n \<and> triangle_wave n \<le> 100 \<and>
   triangle_wave (n + 100) = triangle_wave n"
proof -
  have run: "am_openness (am_ticks s ts) = triangle_wave (length ts)"
    if "am_openness s = 0" "am_open_dir s = 1" "ticks_spaced (am_last_update s) (map fst ts)"
  proof -
    have "on_wave s 0" using that(1,2) by (simp add: on_wave_def triangle_wave_def)
    from on_wave_run [OF this that(3)] show ?thesis by (simp add: on_wave_def)
  qed
  have per: "triangle_wave (n + 100) = triangle_wave n" "triangle_wave 0 = 0"
    by (simp_all add: triangle_wave_def)
  show ?thesis
    using tick_skipped [of now s det g] tick_no_face [of now s g] tick_face [of now s g]
      run per triangle_wave_step [of n] triangle_wave_range [of n]
    by blast
qed

theorem am_oscillator_triangle_wave_witness:
  "1 / 100 - am_last_update (init_tracker 0) < AM_FRAME_INTERVAL \<and>
   update_am_state (init_tracker 0) (1 / 100) True ''CENTRO'' = init_tracker 0 \<and>
   \<not> 5 / 100 - am_last_update (init_tracker 0) < AM_FRAME_INTERVAL \<and>
   am_openness (update_am_state (init_tracker 0) (5 / 100) False ''NO_DETECTADO'') = 0 \<and>
   am_openness (update_am_state (init_tracker 0) (5 / 100) True ''CENTRO'') = 2 \<and>
   am_openness (init_tracker 0) = 0 \<and> am_open_dir (init_tracker 0) = 1 \<and>
   ticks_spaced (am_last_update (init_tracker 0)) (map fst
     [(4 / 100, ''CENTRO''), (8 / 100, ''IZQUIERDA''), (13 / 100, ''CENTRO'')]) \<and>
   am_openness (am_ticks (init_tracker 0)
     [(4 / 100, ''CENTRO''), (8 / 100, ''IZQUIERDA''), (13 / 100, ''CENTRO'')]) = 6"
  using am_oscillator_triangle_wave [of "1 / 100" "init_tracker 0" True "''CENTRO''"
      "[(4 / 100, ''CENTRO''), (8 / 100, ''IZQUIERDA''), (13 / 100, ''CENTRO'')]" 0]
    am_oscillator_triangle_wave [of "5 / 100" "init_tracker 0" True "''CENTRO''" "[]" 0]
    am_oscillator_triangle_wave [of "5 / 100" "init_tracker 0" True "''NO_DETECTADO''" "[]" 0]
  by (simp add: init_tracker_def AM_FRAME_INTERVAL_def triangle_wave_def)

subsection \<open>C4: eyebrow elevation\<close>

lemma brow_distance_mean:
  "brow_distance eyebrow eye shape = \<bar>mean_y eyebrow shape - mean_y eye shape\<bar>"
  by (simp add: brow_distance_def mean_y_def Let_def comp_def)

lemma clamp_unit_scaled:
  "max 0 (min 1 ((d - 20) / 40)) = max 0 (min 40 (d - 20)) / (40::real)"
  by (auto simp: max_def min_def)

lemma eyebrow_height_value:
  assumes "eyebrow \<noteq> []" "eye \<noteq> []"
  shows "get_eyebrow_height eyebrow eye shape =
           Inr (max 0 (min 40 (\<bar>mean_y eyebrow shape - mean_y eye shape\<bar> - 20)) / 40)"
  using assms by (simp add: get_eyebrow_height_def brow_distance_mean clamp_unit_scaled)

lemma clamp_scaled_mono:
  "d \<le> d' \<Longrightarrow> max 0 (min 40 (d - 20)) / (40::real) \<le> max 0 (min 40 (d' - 20)) / 40"
  by (auto simp: max_def min_def)

text \<open>
  C4 as stated fails: the source takes the absolute value of the difference of the two
  means. With every eyebrow point in pixel row \<open>100\<close> and every eye point in row \<open>140\<close>
  (the brow above the eye, rows counted downwards) the method returns \<open>0.5\<close>, while the
  signed formula of the claim gives \<open>0\<close>.
\<close>

theorem eyebrow_signed_formula_counterexample:
  "get_eyebrow_height (replicate 10 \<lparr>lm_x = 1 / 2, lm_y = 100 / 480\<rparr>)
     (replicate 6 \<lparr>lm_x = 1 / 2, lm_y = 140 / 480\<rparr>) (480, 640) = Inr (1 / 2) \<and>
   spec_eyebrow_elevation (replicate 10 \<lparr>lm_x = 1 / 2, lm_y = 100 / 480\<rparr>)
     (replicate 6 \<lparr>lm_x = 1 / 2, lm_y = 140 / 480\<rparr>) (480, 640) = 0 \<and>
   get_eyebrow_height (replicate 10 \<lparr>lm_x = 1 / 2, lm_y = 100 / 480\<rparr>)
     (replicate 6 \<lparr>lm_x = 1 / 2, lm_y = 140 / 480\<rparr>) (480, 640)
   \<noteq> Inr (spec_eyebrow_elevation (replicate 10 \<lparr>lm_x = 1 / 2, lm_y = 100 / 480\<rparr>)
     (replicate 6 \<lparr>lm_x = 1 / 2, lm_y = 140 / 480\<rparr>) (480, 640))"
  by (simp add: get_eyebrow_height_def brow_distance_def spec_eyebrow_elevation_def
      mean_y_def to_pixel_def py_int_def Let_def sum_list_replicate comp_def)

text \<open>
  C4 amended: for non-empty eyebrow and eye point sets the value is
  \<open>clamp(|mean(eyebrow_y) - mean(eye_y)| - 20, 0, 40) / 40\<close>. It is monotonic
  non-decreasing in the raw pixel distance \<open>|mean(eyebrow_y) - mean(eye_y)|\<close>, equals
  \<open>0\<close> for a distance of at most \<open>20\<close> pixels and \<open>1\<close> for a distance of at least \<open>60\<close>.
\<close>

theorem eyebrow_height_abs_clamp:
  assumes "eyebrow \<noteq> []" "eye \<noteq> []" "eyebrow' \<noteq> []" "eye' \<noteq> []"
  shows "get_eyebrow_height eyebrow eye shape =
           Inr (max 0 (min 40 (\<bar>mean_y eyebrow shape - mean_y eye shape\<bar> - 20)) / 40) \<and>
         (\<bar>mean_y eyebrow shape - mean_y eye shape\<bar>
            \<le> \<bar>mean_y eyebrow' shape' - mean_y eye' shape'\<bar> \<longrightarrow>
          (\<exists>v v'. get_eyebrow_height eyebrow eye shape = Inr v \<and>
                  get_eyebrow_height eyebrow' eye' shape' = Inr v' \<and> v \<le> v')) \<and>
         (\<bar>mean_y eyebrow shape - mean_y eye shape\<bar> \<le> 20 \<longrightarrow>
          get_eyebrow_height eyebrow eye shape = Inr 0) \<and>
         (60 \<le> \<bar>mean_y eyebrow shape - mean_y eye shape\<bar> \<longrightarrow>
          get_eyebrow_height eyebrow eye shape = Inr 1)"
proof -
  let ?d = "\<bar>mean_y eyebrow shape - mean_y eye shape\<bar>"
  let ?d' = "\<bar>mean_y eyebrow' shape' - mean_y eye' shape'\<bar>"
  have v: "get_eyebrow_height eyebrow eye shape = Inr (max 0 (min 40 (?d - 20)) / 40)"
    using assms(1,2) by (rule eyebrow_height_value)
  have v': "get_eyebrow_height eyebrow' eye' shape' = Inr (max 0 (min 40 (?d' - 20)) / 40)"
    using assms(3,4) by (rule eyebrow_height_value)
  have mono: "?d \<le> ?d' \<longrightarrow>
      (\<exists>v v'. get_eyebrow_height eyebrow eye shape = Inr v \<and>
              get_eyebrow_height eyebrow' eye' shape' = Inr v' \<and> v \<le> v')"
  proof
    assume "?d \<le> ?d'"
    then have "max 0 (min 40 (?d - 20)) / 40 \<le> max 0 (min 40 (?d' - 20)) / 40"
      by (rule clamp_scaled_mono)
    with v v' show "\<exists>v v'. get_eyebrow_height eyebrow eye shape = Inr v \<and>
              get_eyebrow_height eyebrow' eye' shape' = Inr v' \<and> v \<le> v'"
      by blast
  qed
  have low: "?d \<le> 20 \<longrightarrow> get_eyebrow_height eyebrow eye shape = Inr 0"
    using v by (simp add: max_def min_def)
  have high: "60 \<le> ?d \<longrightarrow> get_eyebrow_height eyebrow eye shape = Inr 1"
    using v by (simp add: max_def min_def)
  show ?thesis using v mono low high by blast
qed

theorem eyebrow_height_abs_clamp_witness:
  "get_eyebrow_height [\<lparr>lm_x = 1 / 2, lm_y = 100 / 480\<rparr>]
     [\<lparr>lm_x = 1 / 2, lm_y = 140 / 480\<rparr>] (480, 640) = Inr (1 / 2) \<and>
   get_eyebrow_height [\<lparr>lm_x = 1 / 2, lm_y = 100 / 480\<rparr>]
     [\<lparr>lm_x = 1 / 2, lm_y = 110 / 480\<rparr>] (480, 640) = Inr 0 \<and>
   get_eyebrow_height [\<lparr>lm_x = 1 / 2, lm_y = 100 / 480\<rparr>]
     [\<lparr>lm_x = 1 / 2, lm_y = 170 / 480\<rparr>] (480, 640) = Inr 1 \<and>
   \<bar>mean_y [\<lparr>lm_x = 1 / 2, lm_y = 100 / 480\<rparr>] (480, 640) -
    mean_y [\<lparr>lm_x = 1 / 2, lm_y = 110 / 480\<rparr>] (480, 640)\<bar> \<le> 20 \<and>
   60 \<le> \<bar>mean_y [\<lparr>lm_x = 1 / 2, lm_y = 100 / 480\<rparr>] (480, 640) -
         mean_y [\<lparr>lm_x = 1 / 2, lm_y = 170 / 480\<rparr>] (480, 640)\<bar> \<and>
   \<bar>mean_y [\<lparr>lm_x = 1 / 2, lm_y = 100 / 480\<rparr>] (480, 640) -
    mean_y [\<lparr>lm_x = 1 / 2, lm_y = 140 / 480\<rparr>] (480, 640)\<bar>
   \<le> \<bar>mean_y [\<lparr>lm_x = 1 / 2, lm_y = 100 / 480\<rparr>] (480, 640) -
      mean_y [\<lparr>lm_x = 1 / 2, lm_y = 170 / 480\<rparr>] (480, 640)\<bar>"
  using
    eyebrow_height_abs_clamp [of "[\<lparr>lm_x = 1 / 2, lm_y = 100 / 480\<rparr>]"
      "[\<lparr>lm_x = 1 / 2, lm_y = 140 / 480\<rparr>]" "[\<lparr>lm_x = 1 / 2, lm_y = 100 / 480\<rparr>]"
      "[\<lparr>lm_x = 1 / 2, lm_y = 170 / 480\<rparr>]" "(480, 640)" "(480, 640)"]
    eyebrow_height_abs_clamp [of "[\<lparr>lm_x = 1 / 2, lm_y = 100 / 480\<rparr>]"
      "[\<lparr>lm_x = 1 / 2, lm_y = 110 / 480\<rparr>]" "[\<lparr>lm_x = 1 / 2, lm_y = 100 / 480\<rparr>]"
      "[\<lparr>lm_x = 1 / 2, lm_y = 170 / 480\<rparr>]" "(480, 640)" "(480, 640)"]
    eyebrow_height_abs_clamp [of "[\<lparr>lm_x = 1 / 2, lm_y = 100 / 480\<rparr>]"
      "[\<lparr>lm_x = 1 / 2, lm_y = 170 / 480\<rparr>]" "[\<lparr>lm_x = 1 / 2, lm_y = 100 / 480\<rparr>]"
      "[\<lparr>lm_x = 1 / 2, lm_y = 170 / 480\<rparr>]" "(480, 640)" "(480, 640)"]
  by (simp add: mean_y_def to_pixel_def py_int_def)

subsection \<open>C9: the eye aspect ratio\<close>

lemma euclidean_pixel_dist:
  "euclidean (to_pixel shape p) (to_pixel shape q) = pixel_dist shape p q"
  by (simp add: euclidean_def pixel_dist_def)

lemma pixel_dist_nonneg: "0 \<le> pixel_dist shape p q"
  by (simp add: pixel_dist_def)

text \<open>
  C9: for six contour points whose two horizontal points \<open>p0\<close>, \<open>p3\<close> are a non-zero
  pixel distance apart, the method returns
  \<open>(dist(p1,p5) + dist(p2,p4)) / (2 * dist(p0,p3))\<close>, a number that is at least \<open>0\<close>.
\<close>

theorem eye_aspect_ratio_formula:
  assumes "length ls = 6" and "pixel_dist shape (ls ! 0) (ls ! 3) \<noteq> 0"
  shows "calculate_eye_aspect_ratio ls shape =
           Inr ((pixel_dist shape (ls ! 1) (ls ! 5) + pixel_dist shape (ls ! 2) (ls ! 4)) /
                (2 * pixel_dist shape (ls ! 0) (ls ! 3))) \<and>
         0 \<le> (pixel_dist shape (ls ! 1) (ls ! 5) + pixel_dist shape (ls ! 2) (ls ! 4)) /
             (2 * pixel_dist shape (ls ! 0) (ls ! 3))"
proof -
  let ?ear = "(pixel_dist shape (ls ! 1) (ls ! 5) + pixel_dist shape (ls ! 2) (ls ! 4)) /
              (2 * pixel_dist shape (ls ! 0) (ls ! 3))"
  have "calculate_eye_aspect_ratio ls shape = Inr ?ear"
    using assms by (simp add: calculate_eye_aspect_ratio_def Let_def euclidean_pixel_dist)
  moreover have "0 \<le> ?ear"
    by (intro divide_nonneg_nonneg add_nonneg_nonneg mult_nonneg_nonneg pixel_dist_nonneg) simp
  ultimately show ?thesis by blast
qed

theorem eye_aspect_ratio_formula_witness:
  "length [\<lparr>lm_x = 100 / 640, lm_y = 100 / 480\<rparr>, \<lparr>lm_x = 110 / 640, lm_y = 95 / 480\<rparr>,
           \<lparr>lm_x = 130 / 640, lm_y = 95 / 480\<rparr>, \<lparr>lm_x = 140 / 640, lm_y = 100 / 480\<rparr>,
           \<lparr>lm_x = 130 / 640, lm_y = 105 / 480\<rparr>, \<lparr>lm_x = 110 / 640, lm_y = 105 / 480\<rparr>] = 6 \<and>
   pixel_dist (480, 640) \<lparr>lm_x = 100 / 640, lm_y = 100 / 480\<rparr>
     \<lparr>lm_x = 140 / 640, lm_y = 100 / 480\<rparr> = 40 \<and>
   calculate_eye_aspect_ratio
     [\<lparr>lm_x = 100 / 640, lm_y = 100 / 480\<rparr>, \<lparr>lm_x = 110 / 640, lm_y = 95 / 480\<rparr>,
      \<lparr>lm_x = 130 / 640, lm_y = 95 / 480\<rparr>, \<lparr>lm_x = 140 / 640, lm_y = 100 / 480\<rparr>,
      \<lparr>lm_x = 130 / 640, lm_y = 105 / 480\<rparr>, \<lparr>lm_x = 110 / 640, lm_y = 105 / 480\<rparr>]
     (480, 640) = Inr (1 / 4)"
  using eye_aspect_ratio_formula [of
     "[\<lparr>lm_x = 100 / 640, lm_y = 100 / 480\<rparr>, \<lparr>lm_x = 110 / 640, lm_y = 95 / 480\<rparr>,
       \<lparr>lm_x = 130 / 640, lm_y = 95 / 480\<rparr>, \<lparr>lm_x = 140 / 640, lm_y = 100 / 480\<rparr>,
       \<lparr>lm_x = 130 / 640, lm_y = 105 / 480\<rparr>, \<lparr>lm_x = 110 / 640, lm_y = 105 / 480\<rparr>]"
     "(480, 640)"]
  by (simp add: pixel_dist_def to_pixel_def py_int_def)

subsection \<open>C5: guarded divisions\<close>

text \<open>
  The frame rate written to the log is guarded: \<open>total_frames / duration\<close> for a
  positive duration, \<open>30\<close> otherwise.
\<close>

lemma recorded_fps_guarded:
  assumes "is_recording s" "animation_frames s \<noteq> []" "video_frames s \<noteq> []"
  shows "saved (stop_recording s now) = saved s @
     [\<lparr>art_duration = now - recording_start_time s,
       art_total_frames = length (animation_frames s),
       art_fps = (if 0 < now - recording_start_time s
                  then of_nat (length (animation_frames s)) / (now - recording_start_time s)
                  else 30),
       art_frames = animation_frames s, art_video = video_frames s\<rparr>]"
  using assms by (simp add: stop_recording_def Let_def)

text \<open>
  C5 says that every division forming a derived ratio is guarded, the EAR quotient
  included, also when the two horizontal points coincide after truncation. The frame
  rate is guarded (\<open>recorded_fps_guarded\<close>); the EAR quotient is not. On a \<open>480 \<times> 640\<close>
  frame the contour below has \<open>p0\<close> and \<open>p3\<close> in the same pixel \<open>(320, 240)\<close>, so \<open>C = 0\<close>
  and the method divides by zero instead of returning a default.
\<close>

theorem eye_aspect_ratio_divides_by_zero:
  "calculate_eye_aspect_ratio
     [\<lparr>lm_x = 5000 / 10000, lm_y = 1 / 2\<rparr>, \<lparr>lm_x = 5002 / 10000, lm_y = 499 / 1000\<rparr>,
      \<lparr>lm_x = 5004 / 10000, lm_y = 499 / 1000\<rparr>, \<lparr>lm_x = 5005 / 10000, lm_y = 1 / 2\<rparr>,
      \<lparr>lm_x = 5004 / 10000, lm_y = 501 / 1000\<rparr>, \<lparr>lm_x = 5002 / 10000, lm_y = 501 / 1000\<rparr>]
     (480, 640) = Inl ZeroDivisionError \<and>
   to_pixel (480, 640) \<lparr>lm_x = 5000 / 10000, lm_y = 1 / 2\<rparr> = (320, 240) \<and>
   to_pixel (480, 640) \<lparr>lm_x = 5005 / 10000, lm_y = 1 / 2\<rparr> = (320, 240)"
  by (simp add: calculate_eye_aspect_ratio_def Let_def euclidean_def to_pixel_def py_int_def)

subsection \<open>C6: the time-gated recorder\<close>

lemma gaps_ok_snoc:
  "gaps_ok (ts @ [u]) \<longleftrightarrow> gaps_ok ts \<and> (ts = [] \<or> frame_interval \<le> u - last ts)"
  by (induction ts rule: gaps_ok.induct) auto

lemma capture_not_recording: "\<not> is_recording s \<Longrightarrow> capture_frame_for_recording s c = s"
  by (simp add: capture_frame_for_recording_def)

lemma captures_not_recording: "\<not> is_recording s \<Longrightarrow> captures s cs = s"
  by (induction cs) (simp_all add: capture_not_recording)

lemma stop_recording_keeps:
  "animation_frames (stop_recording s now) = animation_frames s"
  "last_frame_time (stop_recording s now) = last_frame_time s"
  "recording_start_time (stop_recording s now) = recording_start_time s"
  by (simp_all add: stop_recording_def Let_def)

lemma rec_inv_capture:
  assumes "rec_inv s"
  shows "rec_inv (capture_frame_for_recording s c)"
proof (cases "is_recording s \<and> \<not> max_recording_time < cc_now c - recording_start_time s \<and>
              frame_interval \<le> cc_now c - last_frame_time s")
  case True
  have g: "gaps_ok (map fd_timestamp (animation_frames s))"
    and l: "animation_frames s = [] \<or>
       fd_timestamp (last (animation_frames s)) = last_frame_time s - recording_start_time s"
    using assms by (simp_all add: rec_inv_def)
  have "animation_frames s = [] \<or>
        frame_interval \<le> (cc_now c - recording_start_time s) -
          last (map fd_timestamp (animation_frames s))"
  proof (cases "animation_frames s = []")
    case False
    then have "last (map fd_timestamp (animation_frames s)) =
               last_frame_time s - recording_start_time s"
      using l by (simp add: last_map)
    then show ?thesis using True by simp
  qed simp
  then show ?thesis
    using True g
    by (simp add: rec_inv_def capture_frame_for_recording_def Let_def gaps_ok_snoc)
next
  case False
  then show ?thesis
    using assms
    by (auto simp: rec_inv_def capture_frame_for_recording_def stop_recording_keeps)
qed

lemma rec_inv_captures: "rec_inv s \<Longrightarrow> rec_inv (captures s cs)"
  by (induction cs arbitrary: s) (simp_all add: rec_inv_capture)

lemma rec_inv_start: "\<not> is_recording s \<Longrightarrow> rec_inv (start_recording s t t')"
  by (simp add: rec_inv_def start_recording_def)

lemma capture_timeout:
  assumes "is_recording s" "max_recording_time < cc_now c - recording_start_time s"
  shows "capture_frame_for_recording s c = stop_recording s (cc_now_stop c)"
    and "\<not> is_recording (capture_frame_for_recording s c)"
    and "stops (capture_frame_for_recording s c) = stops s + 1"
    and "animation_frames (capture_frame_for_recording s c) = animation_frames s"
    and "length (saved (capture_frame_for_recording s c)) =
           length (saved s) +
           (if animation_frames s = [] \<or> video_frames s = [] then 0 else 1)"
  using assms by (simp_all add: capture_frame_for_recording_def stop_recording_def Let_def)

lemma capture_in_time:
  assumes "is_recording s" "\<not> max_recording_time < cc_now c - recording_start_time s"
  shows "is_recording (capture_frame_for_recording s c)"
    and "stops (capture_frame_for_recording s c) = stops s"
    and "saved (capture_frame_for_recording s c) = saved s"
    and "recording_start_time (capture_frame_for_recording s c) = recording_start_time s"
    and "(animation_frames s = []) = (video_frames s = []) \<longrightarrow>
         (animation_frames (capture_frame_for_recording s c) = []) =
         (video_frames (capture_frame_for_recording s c) = [])"
    and "capture_frame_for_recording s c =
          (if frame_interval \<le> cc_now c - last_frame_time s
           then s\<lparr>animation_frames := animation_frames (capture_frame_for_recording s c),
                  video_frames := video_frames (capture_frame_for_recording s c),
                  last_frame_time := cc_now c\<rparr>
           else s)"
    and "length (animation_frames (capture_frame_for_recording s c)) =
           length (animation_frames s) +
           (if frame_interval \<le> cc_now c - last_frame_time s then 1 else 0)"
    and "length (video_frames (capture_frame_for_recording s c)) =
           length (video_frames s) +
           (if frame_interval \<le> cc_now c - last_frame_time s then 1 else 0)"
  using assms by (simp_all add: capture_frame_for_recording_def Let_def)

lemma captures_session:
  assumes "is_recording s" and "(animation_frames s = []) = (video_frames s = [])"
  shows "if list_ex (\<lambda>c. max_recording_time < cc_now c - recording_start_time s) cs
         then \<not> is_recording (captures s cs) \<and> stops (captures s cs) = stops s + 1 \<and>
              length (saved (captures s cs)) =
                length (saved s) + (if animation_frames (captures s cs) = [] then 0 else 1)
         else is_recording (captures s cs) \<and> stops (captures s cs) = stops s \<and>
              saved (captures s cs) = saved s"
  using assms
proof (induction cs arbitrary: s)
  case Nil
  then show ?case by simp
next
  case (Cons c cs)
  show ?case
  proof (cases "max_recording_time < cc_now c - recording_start_time s")
    case True
    then show ?thesis
      using Cons.prems capture_timeout [of s c]
      by (simp add: captures_not_recording)
  next
    case False
    then show ?thesis
      using Cons.prems capture_in_time [of s c] Cons.IH [of "capture_frame_for_recording s c"]
      by simp
  qed
qed

text \<open>
  C6: while a recording is active and the \<open>60\<close> s limit has not passed, a capture call
  appends one log entry and one video frame exactly when at least \<open>1/30\<close> s have passed
  since the last accepted capture, and otherwise changes nothing; so the timestamps of
  the log of a session are never closer than \<open>1/30\<close> s, whatever the clock readings of
  the calls. A call with more than \<open>60\<close> s elapsed since the start runs \<open>stop_recording\<close>
  and leaves the session inactive; an inactive session ignores capture calls. Over a
  whole session: if some call comes more than \<open>60\<close> s after the start, the session ends
  inactive with \<open>stop_recording\<close> run exactly once (and the artifacts written once, when
  at least one sample had been captured); if none does, it is still active and nothing
  has been written.
\<close>

theorem recorder_time_gates:
  "(is_recording s \<and> \<not> max_recording_time < cc_now c - recording_start_time s \<longrightarrow>
      length (animation_frames (capture_frame_for_recording s c)) =
        length (animation_frames s) +
        (if frame_interval \<le> cc_now c - last_frame_time s then 1 else 0) \<and>
      length (video_frames (capture_frame_for_recording s c)) =
        length (video_frames s) +
        (if frame_interval \<le> cc_now c - last_frame_time s then 1 else 0) \<and>
      capture_frame_for_recording s c =
        (if frame_interval \<le> cc_now c - last_frame_time s
         then s\<lparr>animation_frames := animation_frames (capture_frame_for_recording s c),
                video_frames := video_frames (capture_frame_for_recording s c),
                last_frame_time := cc_now c\<rparr>
         else s)) \<and>
   (is_recording s \<and> max_recording_time < cc_now c - recording_start_time s \<longrightarrow>
      capture_frame_for_recording s c = stop_recording s (cc_now_stop c) \<and>
      \<not> is_recording (capture_frame_for_recording s c) \<and>
      stops (capture_frame_for_recording s c) = stops s + 1) \<and>
   (\<not> is_recording s \<longrightarrow>
      capture_frame_for_recording s c = s \<and>
      gaps_ok (map fd_timestamp (animation_frames (captures (start_recording s t t') cs))) \<and>
      (if list_ex (\<lambda>c. max_recording_time < cc_now c - t) cs
       then \<not> is_recording (captures (start_recording s t t') cs) \<and>
            stops (captures (start_recording s t t') cs) = stops s + 1 \<and>
            length (saved (captures (start_recording s t t') cs)) =
              length (saved s) +
              (if animation_frames (captures (start_recording s t t') cs) = [] then 0 else 1)
       else is_recording (captures (start_recording s t t') cs) \<and>
            stops (captures (start_recording s t t') cs) = stops s \<and>
            saved (captures (start_recording s t t') cs) = saved s))"
proof -
  have session:
    "gaps_ok (map fd_timestamp (animation_frames (captures (start_recording s t t') cs))) \<and>
      (if list_ex (\<lambda>c. max_recording_time < cc_now c - t) cs
       then \<not> is_recording (captures (start_recording s t t') cs) \<and>
            stops (captures (start_recording s t t') cs) = stops s + 1 \<and>
            length (saved (captures (start_recording s t t') cs)) =
              length (saved s) +
              (if animation_frames (captures (start_recording s t t') cs) = [] then 0 else 1)
       else is_recording (captures (start_recording s t t') cs) \<and>
            stops (captures (start_recording s t t') cs) = stops s \<and>
            saved (captures (start_recording s t t') cs) = saved s)"
    if idle: "\<not> is_recording s"
  proof -
    let ?s0 = "start_recording s t t'"
    have s0: "is_recording ?s0" "(animation_frames ?s0 = []) = (video_frames ?s0 = [])"
      "recording_start_time ?s0 = t" "stops ?s0 = stops s" "saved ?s0 = saved s"
      using idle by (simp_all add: start_recording_def)
    have "rec_inv (captures ?s0 cs)"
      using idle by (intro rec_inv_captures rec_inv_start)
    then have "gaps_ok (map fd_timestamp (animation_frames (captures ?s0 cs)))"
      by (simp add: rec_inv_def)
    then show ?thesis
      using captures_session [OF s0(1,2), of cs] s0(3,4,5) by simp
  qed
  show ?thesis
    using capture_in_time(6,7,8) [of s c] capture_timeout(1,2,3) [of s c]
      capture_not_recording [of s c] session
    by blast
qed

theorem recorder_time_gates_witness:
  "\<not> is_recording (init_tracker 0) \<and>
   list_ex (\<lambda>c. max_recording_time < cc_now c - 0)
     [call_at (1 / 100), call_at (4 / 100), call_at (5 / 100), call_at (8 / 100), call_at 61,
      call_at 62] \<and>
   map fd_timestamp (animation_frames (captures (start_recording (init_tracker 0) 0 0)
     [call_at (1 / 100), call_at (4 / 100), call_at (5 / 100), call_at (8 / 100), call_at 61,
      call_at 62])) = [4 / 100, 8 / 100] \<and>
   \<not> is_recording (captures (start_recording (init_tracker 0) 0 0)
     [call_at (1 / 100), call_at (4 / 100), call_at (5 / 100), call_at (8 / 100), call_at 61,
      call_at 62]) \<and>
   stops (captures (start_recording (init_tracker 0) 0 0)
     [call_at (1 / 100), call_at (4 / 100), call_at (5 / 100), call_at (8 / 100), call_at 61,
      call_at 62]) = 1 \<and>
   length (saved (captures (start_recording (init_tracker 0) 0 0)
     [call_at (1 / 100), call_at (4 / 100), call_at (5 / 100), call_at (8 / 100), call_at 61,
      call_at 62])) = 1 \<and>
   is_recording (start_recording (init_tracker 0) 0 0) \<and>
   length (animation_frames
     (capture_frame_for_recording (start_recording (init_tracker 0) 0 0) (call_at (4 / 100)))) = 1 \<and>
   capture_frame_for_recording (start_recording (init_tracker 0) 0 0) (call_at (1 / 100)) =
     start_recording (init_tracker 0) 0 0 \<and>
   \<not> is_recording
     (capture_frame_for_recording (start_recording (init_tracker 0) 0 0) (call_at 61))"
  using
    recorder_time_gates [of "init_tracker 0" "call_at 61" 0 0
      "[call_at (1 / 100), call_at (4 / 100), call_at (5 / 100), call_at (8 / 100), call_at 61,
        call_at 62]"]
    recorder_time_gates [of "start_recording (init_tracker 0) 0 0" "call_at (4 / 100)" 0 0 "[]"]
    recorder_time_gates [of "start_recording (init_tracker 0) 0 0" "call_at (1 / 100)" 0 0 "[]"]
    recorder_time_gates [of "start_recording (init_tracker 0) 0 0" "call_at 61" 0 0 "[]"]
  by (simp add: init_tracker_def start_recording_def call_at_def max_recording_time_def
      frame_interval_def capture_frame_for_recording_def stop_recording_def Let_def)

subsection \<open>C7: the gaze estimator\<close>

lemma label_of_inj: "label_of h v = label_of h' v' \<Longrightarrow> h = h' \<and> v = v'"
  by (cases h; cases h'; cases v; cases v'; simp add: label_of_def)

lemma last_n_push:
  "length h \<le> 3 \<Longrightarrow>
   (if 3 < length (h @ [g]) then tl (h @ [g]) else h @ [g]) = last_n 3 (h @ [g])"
  by (cases h) (auto simp: last_n_def drop_Cons')

lemma last_n_length: "length (last_n n xs) \<le> n"
  by (simp add: last_n_def)

lemma last_n_last_n: "last_n n (last_n n xs @ ys) = last_n n (xs @ ys)"
proof (cases "length xs \<le> n")
  case True
  then show ?thesis by (simp add: last_n_def)
next
  case False
  then have "length xs + length ys - (length xs - n + n) + (length xs - n) =
             length xs + length ys - n"
    by simp
  then show ?thesis using False by (simp add: last_n_def)
qed

lemma detect_eye_movement_step:
  assumes "fst shape \<noteq> 0" "snd shape \<noteq> 0" "length (eye_movement_history s) \<le> 3"
  shows "detect_eye_movement s lc rc shape lms =
     Inr ((label_of
             (horizontal_of (fst (mean_pos (last_n 3 (eye_movement_history s @
                [gaze_sample lc rc shape lms])))))
             (vertical_of (snd (mean_pos (last_n 3 (eye_movement_history s @
                [gaze_sample lc rc shape lms]))))),
           mean_pos (last_n 3 (eye_movement_history s @ [gaze_sample lc rc shape lms]))),
          s\<lparr>eye_movement_history :=
              last_n 3 (eye_movement_history s @ [gaze_sample lc rc shape lms])\<rparr>)"
proof -
  have "(if history_size < length (eye_movement_history s @ [gaze_sample lc rc shape lms])
         then tl (eye_movement_history s @ [gaze_sample lc rc shape lms])
         else eye_movement_history s @ [gaze_sample lc rc shape lms]) =
        last_n 3 (eye_movement_history s @ [gaze_sample lc rc shape lms])"
    using last_n_push [OF assms(3)] by (simp add: history_size_def)
  then show ?thesis
    using assms(1,2)
    by (simp add: detect_eye_movement_def Let_def mean_pos_def horizontal_of_def
        vertical_of_def label_of_def)
qed

lemma detect_eye_movements_run:
  assumes "list_all call_valid cs" "cs \<noteq> []" "length (eye_movement_history s) \<le> 3"
  shows "detect_eye_movements s cs =
     Inr (Some (label_of
             (horizontal_of (fst (mean_pos (last_n 3 (eye_movement_history s @
                map call_sample cs)))))
             (vertical_of (snd (mean_pos (last_n 3 (eye_movement_history s @
                map call_sample cs))))),
           mean_pos (last_n 3 (eye_movement_history s @ map call_sample cs))),
          s\<lparr>eye_movement_history := last_n 3 (eye_movement_history s @ map call_sample cs)\<rparr>)"
  using assms
proof (induction cs arbitrary: s)
  case Nil
  then show ?case by simp
next
  case (Cons c cs)
  obtain lc rc shape lms where c: "c = (lc, rc, shape, lms)"
    by (cases c) auto
  have v: "fst shape \<noteq> 0" "snd shape \<noteq> 0"
    using Cons.prems(1) c by (simp_all add: call_valid_def)
  note st = detect_eye_movement_step [OF v Cons.prems(3), of lc rc lms]
  show ?case
  proof (cases "cs = []")
    case True
    then show ?thesis using st c by (simp add: call_sample_def)
  next
    case False
    let ?s1 = "s\<lparr>eye_movement_history :=
                  last_n 3 (eye_movement_history s @ [gaze_sample lc rc shape lms])\<rparr>"
    have "length (eye_movement_history ?s1) \<le> 3"
      by (simp add: last_n_length)
    from Cons.IH [OF _ False this] Cons.prems(1)
    have "detect_eye_movements ?s1 cs =
       Inr (Some (label_of
             (horizontal_of (fst (mean_pos (last_n 3 (eye_movement_history ?s1 @
                map call_sample cs)))))
             (vertical_of (snd (mean_pos (last_n 3 (eye_movement_history ?s1 @
                map call_sample cs))))),
           mean_pos (last_n 3 (eye_movement_history ?s1 @ map call_sample cs))),
          ?s1\<lparr>eye_movement_history :=
                 last_n 3 (eye_movement_history ?s1 @ map call_sample cs)\<rparr>)"
      by simp
    moreover have "last_n 3 (eye_movement_history ?s1 @ map call_sample cs) =
          last_n 3 (eye_movement_history s @ map call_sample (c # cs))"
      using last_n_last_n [of 3 "eye_movement_history s @ [gaze_sample lc rc shape lms]"
          "map call_sample cs"] c
      by (simp add: call_sample_def)
    ultimately show ?thesis
      using st c False by simp
  qed
qed

lemma sum_list_constant_fst:
  "list_all (\<lambda>p. fst p = c) h \<Longrightarrow> sum_list (map fst h) = of_nat (length h) * (c::real)"
  by (induction h) (simp_all add: algebra_simps)

lemma last_n_of_long_suffix:
  "n \<le> length ys \<Longrightarrow> last_n n (xs @ ys) = last_n n ys"
  by (simp add: last_n_def)

lemma constant_x_mean:
  assumes "list_all (\<lambda>c. fst (call_sample c) = x) cs" "3 \<le> length cs"
  shows "fst (mean_pos (last_n 3 (h @ map call_sample cs))) = x"
proof -
  let ?l = "last_n 3 (map call_sample cs)"
  have l: "last_n 3 (h @ map call_sample cs) = ?l"
    using assms(2) by (simp add: last_n_of_long_suffix)
  have "list_all (\<lambda>p. fst p = x) (map call_sample cs)"
    using assms(1) by (simp add: list_all_iff)
  then have "list_all (\<lambda>p. fst p = x) ?l"
    unfolding last_n_def list_all_iff using in_set_dropD by fastforce
  then have "sum_list (map fst ?l) = of_nat (length ?l) * x"
    by (rule sum_list_constant_fst)
  moreover have "length ?l = 3"
    using assms(2) by (simp add: last_n_def)
  ultimately show ?thesis
    using l by (simp add: mean_pos_def)
qed

lemma left_label_contains: "sublist ''IZQUIERDA'' (label_of H_LEFT v)"
  unfolding label_of_def by (simp add: sublist_append_rightI del: sublist_code)
text \<open>
  The run in terms of the samples the source computes; what those samples are is the
  next two lemmas.
\<close>

lemma gaze_run_call_samples:
  assumes "list_all call_valid cs" and "cs \<noteq> []" and "length (eye_movement_history s) \<le> 3"
  shows "detect_eye_movements s cs =
     Inr (Some (label_of
             (horizontal_of (fst (mean_pos (last_n 3 (eye_movement_history s @
                map call_sample cs)))))
             (vertical_of (snd (mean_pos (last_n 3 (eye_movement_history s @
                map call_sample cs))))),
           mean_pos (last_n 3 (eye_movement_history s @ map call_sample cs))),
          s\<lparr>eye_movement_history := last_n 3 (eye_movement_history s @ map call_sample cs)\<rparr>) \<and>
     length (last_n 3 (eye_movement_history s @ map call_sample cs)) \<le> 3 \<and>
     (list_all (\<lambda>c. fst (call_sample c) = 3 / 10) cs \<and> 3 \<le> length cs \<longrightarrow>
        fst (mean_pos (last_n 3 (eye_movement_history s @ map call_sample cs))) = 3 / 10 \<and>
        sublist ''IZQUIERDA''
          (label_of
             (horizontal_of (fst (mean_pos (last_n 3 (eye_movement_history s @
                map call_sample cs)))))
             (vertical_of (snd (mean_pos (last_n 3 (eye_movement_history s @
                map call_sample cs)))))))"
proof -
  have "fst (mean_pos (last_n 3 (eye_movement_history s @ map call_sample cs))) = 3 / 10 \<and>
        sublist ''IZQUIERDA''
          (label_of
             (horizontal_of (fst (mean_pos (last_n 3 (eye_movement_history s @
                map call_sample cs)))))
             (vertical_of (snd (mean_pos (last_n 3 (eye_movement_history s @
                map call_sample cs))))))"
    if c: "list_all (\<lambda>c. fst (call_sample c) = 3 / 10) cs" "3 \<le> length cs"
  proof -
    have x: "fst (mean_pos (last_n 3 (eye_movement_history s @ map call_sample cs))) = 3 / 10"
      using c by (rule constant_x_mean)
    have hl: "horizontal_of (3 / 10) = H_LEFT"
      by (simp add: horizontal_of_def)
    show ?thesis
    proof
      show "fst (mean_pos (last_n 3 (eye_movement_history s @ map call_sample cs))) = 3 / 10"
        by (rule x)
      show "sublist ''IZQUIERDA''
          (label_of
             (horizontal_of (fst (mean_pos (last_n 3 (eye_movement_history s @
                map call_sample cs)))))
             (vertical_of (snd (mean_pos (last_n 3 (eye_movement_history s @
                map call_sample cs))))))"
        unfolding x hl by (rule left_label_contains)
    qed
  qed
  then show ?thesis
    using detect_eye_movements_run [OF assms] last_n_length [of 3] by blast
qed

lemma gaze_sample_plain:
  "gaze_sample lc rc shape None =
     ((of_int (fst lc) + of_int (fst rc)) / 2 / of_int (snd shape),
      (of_int (snd lc) + of_int (snd rc)) / 2 / of_int (fst shape))"
  by (simp add: gaze_sample_def Let_def add_divide_distrib)

lemma call_sample_midpoint: "call_sample c = normalized_midpoint c"
  by (cases c)
     (simp add: call_sample_def normalized_midpoint_def gaze_sample_def Let_def
        add_divide_distrib split: option.splits prod.splits)

text \<open>
  C7: every call pushes the normalized midpoint of its two centres: without iris
  landmarks, the mean of the two centre columns divided by the frame width and the mean
  of the two centre rows divided by the frame height. Over any non-empty sequence of
  calls on frames of non-zero size, started with at most three entries in the history,
  the history after the run is the last three entries of the old history followed by
  the pushed midpoints (first in, first out, never more than three), the reported
  position is the arithmetic mean of that history, and the label combines the
  horizontal component (LEFT below \<open>0.42\<close>, RIGHT above \<open>0.58\<close>, else CENTER) with the
  vertical one (UP below \<open>0.42\<close>, DOWN above \<open>0.58\<close>, else CENTER) of the mean. When
  the horizontal position of every pushed midpoint is \<open>0.30\<close> and there are at least
  three of them, the label contains the word for LEFT.
\<close>

theorem gaze_fifo_mean_thresholds:
  assumes "list_all call_valid cs" and "cs \<noteq> []" and "length (eye_movement_history s) \<le> 3"
  shows "gaze_sample lc rc shape None =
       ((of_int (fst lc) + of_int (fst rc)) / 2 / of_int (snd shape),
        (of_int (snd lc) + of_int (snd rc)) / 2 / of_int (fst shape)) \<and>
     detect_eye_movements s cs =
     Inr (Some (label_of
             (horizontal_of (fst (mean_pos (last_n 3 (eye_movement_history s @
                map normalized_midpoint cs)))))
             (vertical_of (snd (mean_pos (last_n 3 (eye_movement_history s @
                map normalized_midpoint cs))))),
           mean_pos (last_n 3 (eye_movement_history s @ map normalized_midpoint cs))),
          s\<lparr>eye_movement_history :=
              last_n 3 (eye_movement_history s @ map normalized_midpoint cs)\<rparr>) \<and>
     length (last_n 3 (eye_movement_history s @ map normalized_midpoint cs)) \<le> 3 \<and>
     (list_all (\<lambda>c. fst (normalized_midpoint c) = 3 / 10) cs \<and> 3 \<le> length cs \<longrightarrow>
        fst (mean_pos (last_n 3 (eye_movement_history s @ map normalized_midpoint cs)))
          = 3 / 10 \<and>
        sublist ''IZQUIERDA''
          (label_of
             (horizontal_of (fst (mean_pos (last_n 3 (eye_movement_history s @
                map normalized_midpoint cs)))))
             (vertical_of (snd (mean_pos (last_n 3 (eye_movement_history s @
                map normalized_midpoint cs)))))))"
proof -
  have same: "map call_sample cs = map normalized_midpoint cs"
    by (simp add: call_sample_midpoint)
  note run = gaze_run_call_samples [OF assms, unfolded call_sample_midpoint same]
  show ?thesis
    by (rule conjI [OF gaze_sample_plain run])
qed

theorem gaze_fifo_mean_thresholds_witness:
  "list_all call_valid
     [((128, 200), (256, 280), (480, 640), None), ((100, 240), (284, 240), (480, 640), Some []),
      ((192, 100), (192, 380), (480, 640), None)] \<and>
   length (eye_movement_history (init_tracker 0)) \<le> 3 \<and>
   gaze_sample (128, 200) (256, 280) (480, 640) None = (3 / 10, 1 / 2) \<and>
   normalized_midpoint ((128, 200), (256, 280), (480, 640), None) = (3 / 10, 1 / 2) \<and>
   list_all (\<lambda>c. fst (normalized_midpoint c) = 3 / 10)
     [((128, 200), (256, 280), (480, 640), None), ((100, 240), (284, 240), (480, 640), Some []),
      ((192, 100), (192, 380), (480, 640), None)] \<and>
   detect_eye_movements (init_tracker 0)
     [((128, 200), (256, 280), (480, 640), None), ((100, 240), (284, 240), (480, 640), Some []),
      ((192, 100), (192, 380), (480, 640), None)] =
   Inr (Some (''IZQUIERDA'', (3 / 10, 1 / 2)),
        (init_tracker 0)\<lparr>eye_movement_history :=
           [(3 / 10, 1 / 2), (3 / 10, 1 / 2), (3 / 10, 1 / 2)]\<rparr>) \<and>
   detect_eye_movements (init_tracker 0)
     [((128, 200), (256, 280), (480, 640), None), ((512, 96), (640, 192), (480, 640), None)] =
   Inr (Some (''DERECHA_ARRIBA'', (3 / 5, 2 / 5)),
        (init_tracker 0)\<lparr>eye_movement_history := [(3 / 10, 1 / 2), (9 / 10, 3 / 10)]\<rparr>) \<and>
   sublist ''IZQUIERDA'' ''IZQUIERDA''"
  using gaze_fifo_mean_thresholds [of
     "[((128, 200), (256, 280), (480, 640), None), ((100, 240), (284, 240), (480, 640), Some []),
       ((192, 100), (192, 380), (480, 640), None)]" "init_tracker 0" "(128, 200)" "(256, 280)"
     "(480, 640)"]
    gaze_fifo_mean_thresholds [of
     "[((128, 200), (256, 280), (480, 640), None), ((512, 96), (640, 192), (480, 640), None)]"
     "init_tracker 0" "(128, 200)" "(256, 280)" "(480, 640)"]
  by (simp add: call_valid_def normalized_midpoint_def get_iris_center_def LEFT_IRIS_def
      RIGHT_IRIS_def init_tracker_def last_n_def mean_pos_def horizontal_of_def
      vertical_of_def label_of_def Let_def)

subsection \<open>C8: box heights in the rectangle modes\<close>

lemma draw_virtual_eyes_heights:
  "er_eye_state (fst (draw_virtual_eyes s left_ear right_ear gaze_pos for_video)) =
     fst (detect_eye_state s left_ear right_ear) \<and>
   snd (draw_virtual_eyes s left_ear right_ear gaze_pos for_video) =
     snd (detect_eye_state s left_ear right_ear) \<and>
   (er_left_height (fst (draw_virtual_eyes s left_ear right_ear gaze_pos for_video)),
    er_right_height (fst (draw_virtual_eyes s left_ear right_ear gaze_pos for_video))) =
     (if both_eyes_closed (snd (detect_eye_state s left_ear right_ear)) \<or>
         fst (detect_eye_state s left_ear right_ear) = AMBOS_CERRADOS
      then (base_height left_ear div 2, base_height right_ear div 2)
      else if left_winking (snd (detect_eye_state s left_ear right_ear)) \<or>
              fst (detect_eye_state s left_ear right_ear) = GUINANDO_IZQUIERDO
      then (base_height left_ear div 2, base_height right_ear)
      else if right_winking (snd (detect_eye_state s left_ear right_ear)) \<or>
              fst (detect_eye_state s left_ear right_ear) = GUINANDO_DERECHO
      then (base_height left_ear, base_height right_ear div 2)
      else (base_height left_ear, base_height right_ear))"
  by (simp add: draw_virtual_eyes_def Let_def split: prod.splits)

lemma draw_virtual_eyes_width:
  "visualization_mode s \<noteq> AM \<Longrightarrow>
   (case er_left_rect (fst (draw_virtual_eyes s left_ear right_ear gaze_pos for_video)) of
      Some (x1, y1, x2, y2) \<Rightarrow> x2 - x1 = 80 | None \<Rightarrow> False) \<and>
   (case er_right_rect (fst (draw_virtual_eyes s left_ear right_ear gaze_pos for_video)) of
      Some (x1, y1, x2, y2) \<Rightarrow> x2 - x1 = 80 | None \<Rightarrow> False)"
  by (simp add: draw_virtual_eyes_def detect_eye_state_def Let_def split: prod.splits)

lemma detect_flags:
  "fst (detect_eye_state s l r) = AMBOS_CERRADOS \<Longrightarrow> both_eyes_closed (snd (detect_eye_state s l r))"
  "fst (detect_eye_state s l r) = GUINANDO_IZQUIERDO \<Longrightarrow>
     \<not> both_eyes_closed (snd (detect_eye_state s l r)) \<and> left_winking (snd (detect_eye_state s l r))"
  "fst (detect_eye_state s l r) = GUINANDO_DERECHO \<Longrightarrow>
     \<not> both_eyes_closed (snd (detect_eye_state s l r)) \<and> \<not> left_winking (snd (detect_eye_state s l r))
     \<and> right_winking (snd (detect_eye_state s l r))"
  "fst (detect_eye_state s l r) = AMBOS_ABIERTOS \<Longrightarrow>
     \<not> both_eyes_closed (snd (detect_eye_state s l r)) \<and> \<not> left_winking (snd (detect_eye_state s l r))
     \<and> \<not> right_winking (snd (detect_eye_state s l r))"
  "fst (detect_eye_state s l r) = NORMAL \<Longrightarrow>
     both_eyes_closed (snd (detect_eye_state s l r)) = both_eyes_closed s \<and>
     left_winking (snd (detect_eye_state s l r)) = left_winking s \<and>
     right_winking (snd (detect_eye_state s l r)) = right_winking s"
  by (auto simp: detect_eye_state_def Let_def split: if_splits)

lemma base_height_floor: "base_height ear = \<lfloor>spec_base_height ear\<rfloor>"
proof (cases "0 \<le> ear")
  case True
  then have "0 \<le> ear / (35 / 100) * 100" by simp
  then have "base_height ear = max 8 (min 100 \<lfloor>ear / (35 / 100) * 100\<rfloor>)"
    by (simp add: base_height_def py_int_def)
  also have "\<dots> = \<lfloor>max 8 (min 100 (ear / (35 / 100) * 100))\<rfloor>"
    unfolding max_def min_def by (simp add: le_floor_iff floor_le_iff)
  finally show ?thesis by (simp add: spec_base_height_def)
next
  case False
  then have neg: "ear / (35 / 100) * 100 < 0" by simp
  then have "\<lceil>ear / (35 / 100) * 100\<rceil> \<le> 0" by (simp add: ceiling_le_iff)
  then have "base_height ear = 8"
    using neg by (simp add: base_height_def py_int_def)
  moreover have "spec_base_height ear = 8"
    using neg by (simp add: spec_base_height_def)
  ultimately show ?thesis by simp
qed

text \<open>
  C8 as stated fails on two counts. The tracker below has just reported a left wink
  (two evaluations with only the left eye closed). The renderer is then called with the
  left eye open and the right eye closed: its classifier call returns the undetermined
  label (the right debounce is pending) and leaves the left-wink flag set, so the left
  box is halved; and the heights are whole pixels, \<open>85 div 2 = 42\<close> and \<open>28\<close>. The claim
  gives \<open>(600/7, 200/7)\<close> for the returned label, and \<open>(300/7, 200/7)\<close> if the stale
  flag is taken for the current state.
\<close>

theorem box_heights_counterexample:
  "er_eye_state (fst (draw_virtual_eyes
      (snd (detect_eye_states (init_tracker 0) [(1 / 10, 3 / 10), (1 / 10, 3 / 10)]))
      (3 / 10) (1 / 10) (1 / 2, 1 / 2) False)) = NORMAL \<and>
   er_left_height (fst (draw_virtual_eyes
      (snd (detect_eye_states (init_tracker 0) [(1 / 10, 3 / 10), (1 / 10, 3 / 10)]))
      (3 / 10) (1 / 10) (1 / 2, 1 / 2) False)) = 42 \<and>
   er_right_height (fst (draw_virtual_eyes
      (snd (detect_eye_states (init_tracker 0) [(1 / 10, 3 / 10), (1 / 10, 3 / 10)]))
      (3 / 10) (1 / 10) (1 / 2, 1 / 2) False)) = 28 \<and>
   spec_box_heights NORMAL (3 / 10) (1 / 10) = (600 / 7, 200 / 7) \<and>
   spec_box_heights GUINANDO_IZQUIERDO (3 / 10) (1 / 10) = (300 / 7, 200 / 7) \<and>
   (42 :: real) \<noteq> 600 / 7 \<and> (42 :: real) \<noteq> 300 / 7 \<and> (28 :: real) \<noteq> 200 / 7"
  by (simp add: draw_virtual_eyes_def detect_eye_state_def init_tracker_def wink_threshold_def
      consecutive_frames_def base_height_def py_int_def spec_box_heights_def
      spec_base_height_def Let_def)

text \<open>
  C8 amended: in the two rectangle modes each box is \<open>80\<close> px wide. The base height of
  an eye is \<open>clamp(8, 100, EAR/0.35 * 100)\<close> rounded down to a whole pixel. After the
  renderer's own classifier call, both heights are halved (integer division) when the
  both-closed flag is set, which it is whenever that call returns the both-closed
  label; otherwise only the left (respectively right) height is halved when the left
  (right) wink flag is set, which it is whenever the call returns that wink; otherwise
  both heights are the base values, as they are whenever the call returns the
  both-open label. When the call returns the undetermined label, the three flags are
  the ones the tracker held before the call.
\<close>

theorem box_heights_follow_flags:
  "base_height left_ear = \<lfloor>spec_base_height left_ear\<rfloor> \<and>
   base_height right_ear = \<lfloor>spec_base_height right_ear\<rfloor> \<and>
   er_eye_state (fst (draw_virtual_eyes s left_ear right_ear gaze_pos for_video)) =
     fst (detect_eye_state s left_ear right_ear) \<and>
   snd (draw_virtual_eyes s left_ear right_ear gaze_pos for_video) =
     snd (detect_eye_state s left_ear right_ear) \<and>
   (er_left_height (fst (draw_virtual_eyes s left_ear right_ear gaze_pos for_video)),
    er_right_height (fst (draw_virtual_eyes s left_ear right_ear gaze_pos for_video))) =
     (if both_eyes_closed (snd (detect_eye_state s left_ear right_ear))
      then (base_height left_ear div 2, base_height right_ear div 2)
      else if left_winking (snd (detect_eye_state s left_ear right_ear))
      then (base_height left_ear div 2, base_height right_ear)
      else if right_winking (snd (detect_eye_state s left_ear right_ear))
      then (base_height left_ear, base_height right_ear div 2)
      else (base_height left_ear, base_height right_ear)) \<and>
   (fst (detect_eye_state s left_ear right_ear) = AMBOS_CERRADOS \<longrightarrow>
      both_eyes_closed (snd (detect_eye_state s left_ear right_ear))) \<and>
   (fst (detect_eye_state s left_ear right_ear) = GUINANDO_IZQUIERDO \<longrightarrow>
      \<not> both_eyes_closed (snd (detect_eye_state s left_ear right_ear)) \<and>
      left_winking (snd (detect_eye_state s left_ear right_ear))) \<and>
   (fst (detect_eye_state s left_ear right_ear) = GUINANDO_DERECHO \<longrightarrow>
      \<not> both_eyes_closed (snd (detect_eye_state s left_ear right_ear)) \<and>
      \<not> left_winking (snd (detect_eye_state s left_ear right_ear)) \<and>
      right_winking (snd (detect_eye_state s left_ear right_ear))) \<and>
   (fst (detect_eye_state s left_ear right_ear) = AMBOS_ABIERTOS \<longrightarrow>
      \<not> both_eyes_closed (snd (detect_eye_state s left_ear right_ear)) \<and>
      \<not> left_winking (snd (detect_eye_state s left_ear right_ear)) \<and>
      \<not> right_winking (snd (detect_eye_state s left_ear right_ear))) \<and>
   (fst (detect_eye_state s left_ear right_ear) = NORMAL \<longrightarrow>
      both_eyes_closed (snd (detect_eye_state s left_ear right_ear)) = both_eyes_closed s \<and>
      left_winking (snd (detect_eye_state s left_ear right_ear)) = left_winking s \<and>
      right_winking (snd (detect_eye_state s left_ear right_ear)) = right_winking s) \<and>
   (visualization_mode s \<noteq> AM \<longrightarrow>
      (case er_left_rect (fst (draw_virtual_eyes s left_ear right_ear gaze_pos for_video)) of
         Some (x1, y1, x2, y2) \<Rightarrow> x2 - x1 = 80 | None \<Rightarrow> False) \<and>
      (case er_right_rect (fst (draw_virtual_eyes s left_ear right_ear gaze_pos for_video)) of
         Some (x1, y1, x2, y2) \<Rightarrow> x2 - x1 = 80 | None \<Rightarrow> False))"
proof -
  note h = draw_virtual_eyes_heights [of s left_ear right_ear gaze_pos for_video]
  note f = detect_flags [of s left_ear right_ear]
  have heights:
    "(er_left_height (fst (draw_virtual_eyes s left_ear right_ear gaze_pos for_video)),
      er_right_height (fst (draw_virtual_eyes s left_ear right_ear gaze_pos for_video))) =
     (if both_eyes_closed (snd (detect_eye_state s left_ear right_ear))
      then (base_height left_ear div 2, base_height right_ear div 2)
      else if left_winking (snd (detect_eye_state s left_ear right_ear))
      then (base_height left_ear div 2, base_height right_ear)
      else if right_winking (snd (detect_eye_state s left_ear right_ear))
      then (base_height left_ear, base_height right_ear div 2)
      else (base_height left_ear, base_height right_ear))"
    using h f(1,2,3) by (cases "fst (detect_eye_state s left_ear right_ear)") auto
  show ?thesis
    using h f heights draw_virtual_eyes_width [of s left_ear right_ear gaze_pos for_video]
      base_height_floor [of left_ear] base_height_floor [of right_ear]
    by blast
qed

theorem box_heights_follow_flags_witness:
  "fst (detect_eye_state (init_tracker 0) (1 / 10) (1 / 10)) = AMBOS_CERRADOS \<and>
   er_left_height (fst (draw_virtual_eyes (init_tracker 0) (1 / 10) (1 / 10) (1 / 2, 1 / 2) False)) = 14 \<and>
   er_right_height (fst (draw_virtual_eyes (init_tracker 0) (1 / 10) (1 / 10) (1 / 2, 1 / 2) False)) = 14 \<and>
   fst (detect_eye_state ((init_tracker 0)\<lparr>left_wink_counter := 1\<rparr>) (1 / 10) (3 / 10))
     = GUINANDO_IZQUIERDO \<and>
   er_left_height (fst (draw_virtual_eyes ((init_tracker 0)\<lparr>left_wink_counter := 1\<rparr>)
     (1 / 10) (3 / 10) (1 / 2, 1 / 2) False)) = 14 \<and>
   er_right_height (fst (draw_virtual_eyes ((init_tracker 0)\<lparr>left_wink_counter := 1\<rparr>)
     (1 / 10) (3 / 10) (1 / 2, 1 / 2) False)) = 85 \<and>
   fst (detect_eye_state ((init_tracker 0)\<lparr>right_wink_counter := 1\<rparr>) (3 / 10) (1 / 10))
     = GUINANDO_DERECHO \<and>
   er_left_height (fst (draw_virtual_eyes ((init_tracker 0)\<lparr>right_wink_counter := 1\<rparr>)
     (3 / 10) (1 / 10) (1 / 2, 1 / 2) False)) = 85 \<and>
   er_right_height (fst (draw_virtual_eyes ((init_tracker 0)\<lparr>right_wink_counter := 1\<rparr>)
     (3 / 10) (1 / 10) (1 / 2, 1 / 2) False)) = 14 \<and>
   fst (detect_eye_state (init_tracker 0) (3 / 10) (3 / 10)) = AMBOS_ABIERTOS \<and>
   er_left_height (fst (draw_virtual_eyes (init_tracker 0) (3 / 10) (3 / 10) (1 / 2, 1 / 2) False)) = 85 \<and>
   er_right_height (fst (draw_virtual_eyes (init_tracker 0) (3 / 10) (3 / 10) (1 / 2, 1 / 2) False)) = 85 \<and>
   fst (detect_eye_state (init_tracker 0) (1 / 10) (3 / 10)) = NORMAL \<and>
   er_left_height (fst (draw_virtual_eyes (init_tracker 0) (1 / 10) (3 / 10) (1 / 2, 1 / 2) False)) = 28 \<and>
   visualization_mode (init_tracker 0) \<noteq> AM \<and>
   er_left_rect (fst (draw_virtual_eyes (init_tracker 0) (3 / 10) (3 / 10) (1 / 2, 1 / 2) False))
     = Some (110, 158, 190, 242)"
  using box_heights_follow_flags [of "1 / 10" "1 / 10" "init_tracker 0" "(1 / 2, 1 / 2)" False]
    box_heights_follow_flags [of "1 / 10" "3 / 10" "(init_tracker 0)\<lparr>left_wink_counter := 1\<rparr>"
      "(1 / 2, 1 / 2)" False]
    box_heights_follow_flags [of "3 / 10" "1 / 10" "(init_tracker 0)\<lparr>right_wink_counter := 1\<rparr>"
      "(1 / 2, 1 / 2)" False]
    box_heights_follow_flags [of "3 / 10" "3 / 10" "init_tracker 0" "(1 / 2, 1 / 2)" False]
    box_heights_follow_flags [of "1 / 10" "3 / 10" "init_tracker 0" "(1 / 2, 1 / 2)" False]
  by (simp add: draw_virtual_eyes_def detect_eye_state_def init_tracker_def wink_threshold_def
      consecutive_frames_def base_height_def py_int_def Let_def)

end
